theory Spec2Isabelle
  imports Main "HOL-Library.AList"
begin

section \<open>Handler dispatch core of esmerald/routing/base.py\<close>

text \<open>
  A shallow embedding of the handler mixins of \<^verbatim>\<open>esmerald/routing/base.py\<close>
  (\<^verbatim>\<open>BaseResponseHandler\<close>, \<^verbatim>\<open>BaseHandlerMixin\<close>) and of the
  \<^verbatim>\<open>Cookie\<close> model of \<^verbatim>\<open>esmerald/datastructures/base.py\<close>.

  Python dictionaries are association lists in insertion order:
  \<^verbatim>\<open>d[k] = v\<close> is \<^const>\<open>AList.update\<close> (an existing key keeps its place, a new
  key goes last), and reading a key is \<^const>\<open>map_of\<close>.
  Exceptions are values of the type \<open>error\<close>; a method that can raise returns
  \<open>error + 'a\<close>. Attributes that the code assigns (\<^verbatim>\<open>self._dependencies\<close>,
  \<^verbatim>\<open>data.status_code\<close>, ...) are record fields, and a method that assigns
  returns the updated record.
\<close>

subsection \<open>Exceptions\<close>

datatype error =
    RuntimeError
  | ImproperlyConfigured string string
  | PermissionDenied
  | TypeError
  | AttributeError
  | ValidationError

subsection \<open>Dictionaries\<close>

type_synonym ('k, 'v) pydict = "('k \<times> 'v) list"

text \<open>\<^verbatim>\<open>d.update(other)\<close>, and one step of \<^verbatim>\<open>{**d, **other}\<close>: the items
  of \<open>other\<close> are stored into \<open>d\<close> from first to last.\<close>

definition dict_update :: "('k, 'v) pydict \<Rightarrow> ('k, 'v) pydict \<Rightarrow> ('k, 'v) pydict" where
  "dict_update d other = fold (\<lambda>(k, v) acc. AList.update k v acc) other d"

text \<open>Python truthiness of an optional integer: \<^verbatim>\<open>None\<close> and 0 are falsy.\<close>

fun truthy_int :: "int option \<Rightarrow> bool" where
  "truthy_int None = False"
| "truthy_int (Some n) = (n \<noteq> 0)"

subsection \<open>Cookies (datastructures/base.py)\<close>

datatype samesite_literal = Lax | Strict | NoneSite

fun samesite_str :: "samesite_literal \<Rightarrow> string" where
  "samesite_str Lax = ''lax''"
| "samesite_str Strict = ''strict''"
| "samesite_str NoneSite = ''none''"

text \<open>The fields of \<^verbatim>\<open>class Cookie(BaseModel)\<close>, in declaration order. The field
  \<^verbatim>\<open>value\<close> is named \<open>cookie_value\<close>.\<close>

record cookie =
  key :: string
  cookie_value :: "string option"
  max_age :: "int option"
  expires :: "int option"
  path :: string
  domain :: "string option"
  secure :: "bool option"
  httponly :: "bool option"
  samesite :: samesite_literal
  description :: "string option"

text \<open>\<^verbatim>\<open>Cookie(key=k, value=v)\<close>: the other fields take their declared defaults.\<close>

definition Cookie :: "string \<Rightarrow> string \<Rightarrow> cookie" where
  "Cookie k v = \<lparr> key = k, cookie_value = Some v, max_age = None, expires = None,
     path = ''/'', domain = None, secure = None, httponly = None, samesite = Lax,
     description = None \<rparr>"

datatype field_value = VStr string | VInt int | VBool bool

text \<open>The model dump of a cookie: every field with its value, \<open>None\<close> for Python's
  \<^verbatim>\<open>None\<close>.\<close>

definition model_dump :: "cookie \<Rightarrow> (string, field_value option) pydict" where
  "model_dump c =
     [(''key'', Some (VStr (key c))),
      (''value'', map_option VStr (cookie_value c)),
      (''max_age'', map_option VInt (max_age c)),
      (''expires'', map_option VInt (expires c)),
      (''path'', Some (VStr (path c))),
      (''domain'', map_option VStr (domain c)),
      (''secure'', map_option VBool (secure c)),
      (''httponly'', map_option VBool (httponly c)),
      (''samesite'', Some (VStr (samesite_str (samesite c)))),
      (''description'', map_option VStr (description c))]"

text \<open>\<^verbatim>\<open>cookie.dict(exclude_none=True, exclude={"description"})\<close>.\<close>

fun exclude_none :: "(string, field_value option) pydict \<Rightarrow> (string, field_value) pydict" where
  "exclude_none [] = []"
| "exclude_none ((n, None) # fs) = exclude_none fs"
| "exclude_none ((n, Some v) # fs) = (n, v) # exclude_none fs"

definition cookie_dict :: "cookie \<Rightarrow> (string, field_value) pydict" where
  "cookie_dict c = exclude_none (filter (\<lambda>(n, v). n \<noteq> ''description'') (model_dump c))"

text \<open>\<^verbatim>\<open>get_cookies\<close>, lines 503-515. The first loop appends to
  \<open>filtered_cookies\<close> while testing against it.\<close>

fun append_unique :: "cookie list \<Rightarrow> cookie list \<Rightarrow> cookie list" where
  "append_unique filtered_cookies [] = filtered_cookies"
| "append_unique filtered_cookies (c # other_cookies) =
     (if \<not> list_ex (\<lambda>c'. key c = key c') filtered_cookies
      then append_unique (filtered_cookies @ [c]) other_cookies
      else append_unique filtered_cookies other_cookies)"

definition get_cookies :: "cookie list \<Rightarrow> cookie list \<Rightarrow> (string, field_value) pydict list" where
  "get_cookies local_cookies other_cookies =
     map cookie_dict (append_unique local_cookies other_cookies)"

subsection \<open>Responses\<close>

text \<open>\<^verbatim>\<open>self.media_type\<close> is a member of the \<^verbatim>\<open>MediaType\<close> enumeration, given
  here with its \<^verbatim>\<open>.value\<close>, or a plain string.\<close>

datatype media = MediaTypeEnum string | MediaTypeStr string

fun media_value :: "media \<Rightarrow> string" where
  "media_value (MediaTypeEnum v) = v"
| "media_value (MediaTypeStr s) = s"

text \<open>\<^verbatim>\<open>MediaType\<close> mixes in \<^verbatim>\<open>str\<close>, so a media type is falsy exactly when it
  is \<^verbatim>\<open>None\<close> or its string is empty.\<close>

fun truthy_media :: "media option \<Rightarrow> bool" where
  "truthy_media None = False"
| "truthy_media (Some m) = (media_value m \<noteq> [])"

datatype background = BackgroundTask nat | BackgroundTasks "nat list"

text \<open>A header value is any Python value or \<^verbatim>\<open>None\<close>
  (\<^verbatim>\<open>ResponseHeader.value: Optional[Any] = None\<close>).\<close>

type_synonym header_value = "string option"

record response_header =
  header_value :: header_value

text \<open>
  Modelled from the spec: the response-class family of section 6, which is imported from
  \<^verbatim>\<open>starlette.responses\<close> and \<^verbatim>\<open>esmerald.responses\<close>. A transport-native response
  has a mutable status code, media type, headers and background, a body, and a
  \<^verbatim>\<open>set_cookie(**attrs)\<close> operation, whose calls are recorded in order in
  \<open>set_cookie_calls\<close>. The generic \<^verbatim>\<open>Response\<close> is a subclass that also declares a list
  of cookies.
\<close>

record starlette_response =
  status_code :: int
  media_type :: "media option"
  headers :: "(string, header_value) pydict"
  body :: string
  background :: "background option"
  set_cookie_calls :: "(string, field_value) pydict list"

record response = starlette_response +
  cookies :: "cookie list"

definition set_cookie ::
  "(string, field_value) pydict \<Rightarrow> 'a starlette_response_scheme \<Rightarrow> 'a starlette_response_scheme" where
  "set_cookie attrs r = r\<lparr>set_cookie_calls := set_cookie_calls r @ [attrs]\<rparr>"

text \<open>\<^verbatim>\<open>get_headers\<close>, lines 517-527: the comprehension stores one item per header.\<close>

definition get_headers :: "(string, response_header) pydict \<Rightarrow> (string, header_value) pydict" where
  "get_headers hs = dict_update [] (map (\<lambda>(k, v). (k, header_value v)) hs)"

text \<open>The dictionary display \<^verbatim>\<open>{**a, **b, **c}\<close> of lines 162-166 and 208-212.\<close>

definition merged_headers ::
  "(string, response_header) pydict \<Rightarrow> (string, header_value) pydict
    \<Rightarrow> (string, header_value) pydict \<Rightarrow> (string, header_value) pydict" where
  "merged_headers hs data_headers allow =
     dict_update (dict_update (dict_update [] (get_headers hs)) data_headers) allow"

text \<open>
  The closures \<^verbatim>\<open>response_content\<close> returned by the \<^verbatim>\<open>create_..._handler\<close>
  methods: the arguments before \<open>data\<close> are the values the closure captures, where
  \<open>allow_header\<close> stands for the property \<^verbatim>\<open>self.allow_header\<close>. A captured
  argument carries a prime where a field of the response has its name.
\<close>

text \<open>\<^verbatim>\<open>create_response_handler\<close>, lines 142-181.\<close>

definition create_response_handler ::
  "(string, header_value) pydict \<Rightarrow> cookie list \<Rightarrow> (string, response_header) pydict
    \<Rightarrow> int option \<Rightarrow> media option \<Rightarrow> 'a response_scheme \<Rightarrow> 'a response_scheme" where
  "create_response_handler allow_header cookies' headers' status_code' media_type' data =
     (let cookies1 = get_cookies (cookies data) cookies';
          headers1 = merged_headers headers' (headers data) allow_header;
          data = fold set_cookie cookies1 data;
          data = (if truthy_int status_code' then data\<lparr>status_code := the status_code'\<rparr> else data);
          data = (if truthy_media media_type' then data\<lparr>media_type := media_type'\<rparr> else data)
      in data\<lparr>headers := dict_update (headers data) headers1\<rparr>)"

text \<open>\<^verbatim>\<open>create_json_response_handler\<close>, lines 183-193.\<close>

definition create_json_response_handler ::
  "int option \<Rightarrow> 'a starlette_response_scheme \<Rightarrow> 'a starlette_response_scheme" where
  "create_json_response_handler status_code' data =
     (if truthy_int status_code' then data\<lparr>status_code := the status_code'\<rparr> else data)"

text \<open>\<^verbatim>\<open>create_starlette_response_handler\<close>, lines 195-222.\<close>

definition create_starlette_response_handler ::
  "(string, header_value) pydict \<Rightarrow> cookie list \<Rightarrow> (string, response_header) pydict
    \<Rightarrow> media option \<Rightarrow> 'a starlette_response_scheme \<Rightarrow> 'a starlette_response_scheme" where
  "create_starlette_response_handler allow_header cookies' headers' media_type' data =
     (let cookies1 = get_cookies cookies' [];
          headers1 = merged_headers headers' (headers data) allow_header;
          data = fold set_cookie cookies1 data;
          data = data\<lparr>media_type := media_type'\<rparr>
      in data\<lparr>headers := dict_update (headers data) headers1\<rparr>)"

text \<open>The value a handler function returns: a plain value or an instance of
  \<^verbatim>\<open>JSONResponse\<close> or \<^verbatim>\<open>ORJSONResponse\<close>, returned as it is or as an awaitable
  that yields it.\<close>

datatype ('c, 'a) returned =
    Plain 'c
  | JSONResponseInstance "'a starlette_response_scheme"

datatype ('c, 'a) handler_result =
    Now "('c, 'a) returned"
  | Awaitable "('c, 'a) returned"

text \<open>\<^verbatim>\<open>get_response_data\<close>, lines 529-540.\<close>

fun get_response_data :: "('c, 'a) handler_result \<Rightarrow> ('c, 'a) returned" where
  "get_response_data (Awaitable d) = d"
| "get_response_data (Now d) = d"

text \<open>The \<^verbatim>\<open>headers\<close> argument of a response class is a dictionary of any Python
  values: a header value, as \<open>get_headers\<close> gives, or a \<^verbatim>\<open>ResponseHeader\<close> object as
  the handler declares it. \<open>declared_headers\<close> is a dictionary of declarations passed as it
  is.\<close>

datatype header_argument = Header_value header_value | Header_declaration response_header

definition declared_headers ::
  "(string, response_header) pydict \<Rightarrow> (string, header_argument) pydict" where
  "declared_headers hs = map (\<lambda>(k, v). (k, Header_declaration v)) hs"

text \<open>A response class: its constructor, called with background, content, headers,
  media type and status code, which returns the response or raises.\<close>

type_synonym ('c, 'a) response_type =
  "background option \<Rightarrow> 'c \<Rightarrow> (string, header_argument) pydict \<Rightarrow> string \<Rightarrow> int
     \<Rightarrow> error + 'a starlette_response_scheme"

text \<open>\<^verbatim>\<open>create_handler\<close>, lines 224-255. The response class is an argument, as in the
  source. Line 246 passes the \<^verbatim>\<open>headers\<close> of the closure, which are the declarations
  that \<^verbatim>\<open>get_response_headers()\<close> returned, without the projection by
  \<^verbatim>\<open>get_headers\<close> that lines 128, 163 and 209 apply.\<close>

definition create_handler ::
  "background option \<Rightarrow> cookie list \<Rightarrow> (string, response_header) pydict \<Rightarrow> string
    \<Rightarrow> ('c, 'a) response_type \<Rightarrow> int \<Rightarrow> ('c, 'a) handler_result
    \<Rightarrow> error + 'a starlette_response_scheme" where
  "create_handler background' cookies' headers' media_type' response_class status_code' data =
     (let cookies1 = get_cookies cookies' [] in
      case get_response_data data of
        JSONResponseInstance r \<Rightarrow>
          Inr (fold set_cookie cookies1
                 (r\<lparr>status_code := status_code', background := background'\<rparr>))
      | Plain content \<Rightarrow>
          (case response_class background' content (declared_headers headers') media_type'
                  status_code' of
             Inl e \<Rightarrow> Inl e
           | Inr response \<Rightarrow> Inr (fold set_cookie cookies1 response)))"

text \<open>The header values of a dictionary of header arguments, when every argument is a
  header value.\<close>

fun header_values ::
  "(string, header_argument) pydict \<Rightarrow> error + (string, header_value) pydict" where
  "header_values [] = Inr []"
| "header_values ((k, Header_value v) # hs) =
     (case header_values hs of Inl e \<Rightarrow> Inl e | Inr vs \<Rightarrow> Inr ((k, v) # vs))"
| "header_values ((k, Header_declaration d) # hs) = Inl AttributeError"

text \<open>
  Modelled from the spec: a response class as section 6 describes it, the classes
  themselves being imported from \<^verbatim>\<open>starlette.responses\<close> and
  \<^verbatim>\<open>esmerald.responses\<close>. Its constructor keeps the status code, media type and
  background it is given, takes as body the content serialised by \<open>render\<close>, and stores
  the header values it is given. A \<^verbatim>\<open>ResponseHeader\<close> declaration is not a header
  value (section 4.4 projects the declarations to values before they are merged), and the
  constructor raises when it is handed one.
\<close>

definition response_class_of :: "('c \<Rightarrow> string) \<Rightarrow> ('c, unit response_ext) response_type" where
  "response_class_of render background' content headers' media_type' status_code' =
     (case header_values headers' of
        Inl e \<Rightarrow> Inl e
      | Inr values \<Rightarrow>
          Inr \<lparr> status_code = status_code', media_type = Some (MediaTypeStr media_type'),
                headers = values, body = render content, background = background',
                set_cookie_calls = [], cookies = [] \<rparr>)"

subsection \<open>Selecting the response handler (BaseResponseHandler)\<close>

text \<open>The classes that \<^verbatim>\<open>get_response_handler\<close> tests the return annotation against,
  in the order of its tests; the second test is against the pair
  \<^verbatim>\<open>(JSONResponse, ORJSONResponse)\<close>.\<close>

datatype response_base =
    ResponseContainer_class
  | JSONResponse_or_ORJSONResponse
  | Response_class
  | StarletteResponse_class

text \<open>A closure built by one of the five \<^verbatim>\<open>create_..._handler\<close> methods, with the
  arguments it was built from in the order of the method's parameters. The behaviour of
  \<open>Json_response_handler s\<close> is \<open>create_json_response_handler s\<close>, and likewise for
  \<open>Response_handler\<close>, \<open>Starlette_response_handler\<close> and \<open>Handler\<close>.\<close>

datatype ('c, 'a) response_handler =
    Response_container_handler "cookie list" "(string, response_header) pydict" media int
  | Json_response_handler "int option"
  | Response_handler "cookie list" "(string, response_header) pydict" "int option" "media option"
  | Starlette_response_handler "cookie list" "(string, response_header) pydict" "media option"
  | Handler "background option" "cookie list" "(string, response_header) pydict" string
      "('c, 'a) response_type" int

text \<open>The attributes of \<^verbatim>\<open>self\<close> that \<^verbatim>\<open>get_response_handler\<close> reads and writes.
  \<open>self_media_type\<close>, \<open>self_status_code\<close> and \<open>self_background\<close> are
  \<^verbatim>\<open>self.media_type\<close>, \<^verbatim>\<open>self.status_code\<close> and \<^verbatim>\<open>self.background\<close>;
  \<open>return_annotation\<close> is \<^verbatim>\<open>self.signature.return_annotation\<close>;
  \<open>response_class\<close>, \<open>response_headers\<close> and \<open>response_cookies\<close> are what
  \<^verbatim>\<open>get_response_class()\<close>, \<^verbatim>\<open>get_response_headers()\<close> and
  \<^verbatim>\<open>get_response_cookies()\<close> return; \<open>priv_response_handler\<close> is
  \<^verbatim>\<open>self._response_handler\<close>, with \<open>None\<close> for \<^verbatim>\<open>Void\<close>.\<close>

record ('c, 'a, 'ann) response_handler_mixin =
  self_media_type :: media
  self_status_code :: int
  self_background :: "background option"
  return_annotation :: 'ann
  response_class :: "('c, 'a) response_type"
  response_headers :: "(string, response_header) pydict"
  response_cookies :: "cookie list"
  priv_response_handler :: "('c, 'a) response_handler option"

text \<open>\<^verbatim>\<open>get_response_handler\<close>, lines 352-403. The helper
  \<^verbatim>\<open>is_class_and_subclass\<close> of \<^verbatim>\<open>esmerald.utils.helpers\<close> is an argument.\<close>

definition get_response_handler ::
  "('ann \<Rightarrow> response_base \<Rightarrow> bool) \<Rightarrow> ('c, 'a, 'ann) response_handler_mixin
    \<Rightarrow> ('c, 'a) response_handler \<times> ('c, 'a, 'ann) response_handler_mixin" where
  "get_response_handler is_class_and_subclass self =
     (case priv_response_handler self of
        Some cached \<Rightarrow> (cached, self)
      | None \<Rightarrow>
          (let media_type' = media_value (self_media_type self);
               response_class' = response_class self;
               headers' = response_headers self;
               cookies' = response_cookies self;
               handler =
                 (if is_class_and_subclass (return_annotation self) ResponseContainer_class
                  then Response_container_handler cookies' headers' (self_media_type self)
                         (self_status_code self)
                  else if is_class_and_subclass (return_annotation self)
                            JSONResponse_or_ORJSONResponse
                  then Json_response_handler (Some (self_status_code self))
                  else if is_class_and_subclass (return_annotation self) Response_class
                  then Response_handler cookies' headers' (Some (self_status_code self))
                         (Some (self_media_type self))
                  else if is_class_and_subclass (return_annotation self) StarletteResponse_class
                  then Starlette_response_handler cookies' headers' (Some (self_media_type self))
                  else Handler (self_background self) cookies' headers' media_type'
                         response_class' (self_status_code self))
           in (handler, self\<lparr>priv_response_handler := Some handler\<rparr>)))"

text \<open>The five strategies of section 4.4, and the one a closure implements.\<close>

datatype strategy = Container | PrebuiltJSON | GenericResponse | NativeResponse | PlainValue

fun strategy_of :: "('c, 'a) response_handler \<Rightarrow> strategy" where
  "strategy_of (Response_container_handler c h m s) = Container"
| "strategy_of (Json_response_handler s) = PrebuiltJSON"
| "strategy_of (Response_handler c h s m) = GenericResponse"
| "strategy_of (Starlette_response_handler c h m) = NativeResponse"
| "strategy_of (Handler b c h m r s) = PlainValue"

text \<open>The precedence order as section 4.4 words it: the first class of the list that
  the annotation matches decides, and the fallback applies when none matches.\<close>

definition precedence :: "(response_base \<times> strategy) list" where
  "precedence = [(ResponseContainer_class, Container),
                 (JSONResponse_or_ORJSONResponse, PrebuiltJSON),
                 (Response_class, GenericResponse),
                 (StarletteResponse_class, NativeResponse)]"

definition first_match :: "('ann \<Rightarrow> response_base \<Rightarrow> bool) \<Rightarrow> 'ann \<Rightarrow> strategy" where
  "first_match is_class_and_subclass ann =
     (case find (\<lambda>(cls, s). is_class_and_subclass ann cls) precedence of
        Some (cls, s) \<Rightarrow> s
      | None \<Rightarrow> PlainValue)"

text \<open>Two handlers for the examples: an annotation is given by the list of the classes it
  is a subclass of. The first declares a JSON response (which is a transport-native
  response as well), the second a plain dictionary of strings, with status code 201, the
  JSON media type and one declared response header, its response class serialising a
  dictionary key by key.\<close>

definition is_listed :: "response_base list \<Rightarrow> response_base \<Rightarrow> bool" where
  "is_listed ann cls = (cls \<in> set ann)"

definition render_items :: "(string, string) pydict \<Rightarrow> string" where
  "render_items d = concat (map (\<lambda>(k, v). k @ ''='' @ v @ '';'') d)"

definition json_handler_example ::
  "((string, string) pydict, unit response_ext, response_base list) response_handler_mixin" where
  "json_handler_example =
     \<lparr> self_media_type = MediaTypeEnum ''application/json'', self_status_code = 200,
       self_background = None,
       return_annotation = [JSONResponse_or_ORJSONResponse, StarletteResponse_class],
       response_class = response_class_of render_items, response_headers = [],
       response_cookies = [], priv_response_handler = None \<rparr>"

definition dict_handler_example ::
  "((string, string) pydict, unit response_ext, response_base list) response_handler_mixin" where
  "dict_handler_example =
     \<lparr> self_media_type = MediaTypeEnum ''application/json'', self_status_code = 201,
       self_background = None, return_annotation = [],
       response_class = response_class_of render_items,
       response_headers = [(''x-a'', \<lparr>header_value = Some ''1''\<rparr>)],
       response_cookies = [Cookie ''a'' ''1''], priv_response_handler = None \<rparr>"

subsection \<open>Ownership layers (BaseHandlerMixin)\<close>

text \<open>
  Modelled from the spec: \<^verbatim>\<open>Inject\<close> of \<^verbatim>\<open>esmerald.injector\<close>, a provider that is
  equality-comparable by the identity of the provider it wraps (section 3); Python's
  \<^verbatim>\<open>==\<close> on two of them is equality of their \<open>dependency\<close>.
\<close>

datatype inject = Inject (dependency: nat)

text \<open>A permission class: its name, and what \<^verbatim>\<open>has_permission\<close> of an instance answers
  for a connection and this handler.\<close>

datatype 'conn permission = Permission (permission_name: string) (has_permission: "'conn \<Rightarrow> bool")

text \<open>The key of an exception handler: a status code or an exception class.\<close>

datatype exception_key = StatusCode int | ExceptionClass string

text \<open>A layer of the ownership chain, with the attributes that the handler reads from
  it; each is optional, and \<open>owner\<close> is \<open>None\<close> at the root. An exception handler is
  given by a number.\<close>

datatype 'conn layer =
  Layer (dependencies: "(string, inject) pydict option")
        (permissions: "'conn permission list option")
        (exception_handlers: "(exception_key, nat) pydict option")
        (owner: "'conn layer option")

text \<open>\<^verbatim>\<open>AsyncCallable\<close> of \<^verbatim>\<open>esmerald.utils.sync\<close> wraps a callable; awaiting the call
  of the wrapper gives what the callable returns, here an instance of the permission
  class.\<close>

datatype 'conn async_callable = AsyncCallable (wrapped: "'conn permission")

text \<open>The handler: \<open>this\<close> holds its own layer attributes, \<open>signature_model\<close> tells whether
  \<^verbatim>\<open>self.signature_model\<close> is set, \<open>priv_permissions\<close> and \<open>priv_dependencies\<close> are
  \<^verbatim>\<open>self._permissions\<close> and \<^verbatim>\<open>self._dependencies\<close> with \<open>None\<close> for \<^verbatim>\<open>Void\<close>.
  The dictionary in \<^verbatim>\<open>self._dependencies\<close> is an object that the method creates, fills
  in place and returns: \<open>objects\<close> is the store of the dictionaries created so far, and a
  reference to one of them is its index.\<close>

record 'conn handler_mixin =
  this :: "'conn layer"
  signature_model :: bool
  priv_permissions :: "'conn async_callable list option"
  priv_dependencies :: "nat option"
  objects :: "(string, inject) pydict list"

text \<open>\<^verbatim>\<open>ownership_layers\<close>, lines 426-436: the loop collects the layers from the handler
  up to the root, and the result is the reversed list.\<close>

fun layers_upwards :: "'conn layer \<Rightarrow> 'conn layer list" where
  "layers_upwards (Layer d p e None) = [Layer d p e None]"
| "layers_upwards (Layer d p e (Some current)) = Layer d p e (Some current) # layers_upwards current"

definition ownership_layers :: "'conn handler_mixin \<Rightarrow> 'conn layer list" where
  "ownership_layers self = rev (layers_upwards (this self))"

text \<open>\<^verbatim>\<open>layer.permissions or []\<close>, \<^verbatim>\<open>layer.dependencies or {}\<close> and
  \<^verbatim>\<open>layer.exception_handlers or {}\<close>.\<close>

definition permissions_or_empty :: "'conn layer \<Rightarrow> 'conn permission list" where
  "permissions_or_empty layer = (case permissions layer of None \<Rightarrow> [] | Some ps \<Rightarrow> ps)"

definition dependencies_or_empty :: "'conn layer \<Rightarrow> (string, inject) pydict" where
  "dependencies_or_empty layer = (case dependencies layer of None \<Rightarrow> [] | Some d \<Rightarrow> d)"

definition exception_handlers_or_empty :: "'conn layer \<Rightarrow> (exception_key, nat) pydict" where
  "exception_handlers_or_empty layer =
     (case exception_handlers layer of None \<Rightarrow> [] | Some d \<Rightarrow> d)"

subsection \<open>Permissions\<close>

text \<open>\<^verbatim>\<open>resolve_permissions\<close>, lines 445-457.\<close>

definition resolve_permissions ::
  "'conn handler_mixin \<Rightarrow> 'conn async_callable list \<times> 'conn handler_mixin" where
  "resolve_permissions self =
     (case priv_permissions self of
        Some cached \<Rightarrow> (cached, self)
      | None \<Rightarrow>
          (let collected = fold (\<lambda>layer acc. acc @ permissions_or_empty layer)
                              (ownership_layers self) [];
               resolved = map AsyncCallable collected
           in (resolved, self\<lparr>priv_permissions := Some resolved\<rparr>)))"

text \<open>
  Modelled from the spec: \<^verbatim>\<open>continue_or_raise_permission_exception\<close> of
  \<^verbatim>\<open>esmerald.permissions.utils\<close>, a module that the file only imports. By section 4.3
  a Permission-Denied error is raised when \<^verbatim>\<open>has_permission\<close> answers no.
\<close>

definition continue_or_raise_permission_exception ::
  "'conn \<Rightarrow> 'conn permission \<Rightarrow> error + unit" where
  "continue_or_raise_permission_exception connection permission =
     (if has_permission permission connection then Inr () else Inl PermissionDenied)"

text \<open>The loop of \<^verbatim>\<open>allow_connection\<close>, lines 548-551. \<open>evaluated\<close> lists the
  permissions whose \<^verbatim>\<open>has_permission\<close> has been called in line 550, in the order of the
  calls.\<close>

fun check_permissions ::
  "'conn \<Rightarrow> 'conn async_callable list \<Rightarrow> 'conn permission list
    \<Rightarrow> (error + unit) \<times> 'conn permission list" where
  "check_permissions connection [] evaluated = (Inr (), evaluated)"
| "check_permissions connection (p # rest) evaluated =
     (let permission = wrapped p;
          evaluated = evaluated @ [permission]
      in case continue_or_raise_permission_exception connection permission of
           Inl e \<Rightarrow> (Inl e, evaluated)
         | Inr u \<Rightarrow> check_permissions connection rest evaluated)"

text \<open>\<^verbatim>\<open>allow_connection\<close>, lines 542-551: the outcome, the permissions evaluated, and
  the handler with its permission list resolved.\<close>

definition allow_connection ::
  "'conn \<Rightarrow> 'conn handler_mixin
    \<Rightarrow> (error + unit) \<times> 'conn permission list \<times> 'conn handler_mixin" where
  "allow_connection connection self =
     (let (resolved, self') = resolve_permissions self;
          (outcome, evaluated) = check_permissions connection resolved []
      in (outcome, evaluated, self'))"

subsection \<open>Exception handlers\<close>

text \<open>\<^verbatim>\<open>get_exception_handlers\<close>, lines 492-501. It reads the layers and assigns no
  attribute of the handler.\<close>

definition get_exception_handlers :: "'conn handler_mixin \<Rightarrow> (exception_key, nat) pydict" where
  "get_exception_handlers self =
     fold (\<lambda>layer resolved_exception_handlers.
             dict_update resolved_exception_handlers (exception_handlers_or_empty layer))
          (ownership_layers self) []"

subsection \<open>Dependencies\<close>

text \<open>\<^verbatim>\<open>has_dependency_unique\<close>, lines 479-490: the error names the key being stored and
  the first key of the dictionary that holds an equal provider.\<close>

fun has_dependency_unique :: "(string, inject) pydict \<Rightarrow> string \<Rightarrow> inject \<Rightarrow> error + unit" where
  "has_dependency_unique [] k injector = Inr ()"
| "has_dependency_unique ((dependency_key, v) # rest) k injector =
     (if injector = v then Inl (ImproperlyConfigured k dependency_key)
      else has_dependency_unique rest k injector)"

text \<open>The inner loop of \<^verbatim>\<open>get_dependencies\<close>, lines 470-476, over the items of one
  layer, and the outer loop over the layers, line 469. Both return the dictionary as it
  is when they stop, as the dictionary is filled in place.\<close>

fun store_items ::
  "(string, inject) pydict \<Rightarrow> (string \<times> inject) list \<Rightarrow> (error + unit) \<times> (string, inject) pydict" where
  "store_items d [] = (Inr (), d)"
| "store_items d ((k, v) # items) =
     (case has_dependency_unique d k v of
        Inl e \<Rightarrow> (Inl e, d)
      | Inr u \<Rightarrow> store_items (AList.update k v d) items)"

fun store_layers ::
  "(string, inject) pydict \<Rightarrow> 'conn layer list \<Rightarrow> (error + unit) \<times> (string, inject) pydict" where
  "store_layers d [] = (Inr (), d)"
| "store_layers d (layer # layers) =
     (case store_items d (dependencies_or_empty layer) of
        (Inl e, d') \<Rightarrow> (Inl e, d')
      | (Inr u, d') \<Rightarrow> store_layers d' layers)"

text \<open>\<^verbatim>\<open>get_dependencies\<close>, lines 459-477. A call that finds the slot unset creates a
  dictionary, stores the reference in the slot and fills it; the result is the reference
  held by the slot.\<close>

definition get_dependencies :: "'conn handler_mixin \<Rightarrow> (error + nat) \<times> 'conn handler_mixin" where
  "get_dependencies self =
     (if \<not> signature_model self then (Inl RuntimeError, self)
      else case priv_dependencies self of
        Some reference \<Rightarrow> (Inr reference, self)
      | None \<Rightarrow>
          (let reference = length (objects self);
               (outcome, d) = store_layers [] (ownership_layers self);
               self' = self\<lparr>priv_dependencies := Some reference, objects := objects self @ [d]\<rparr>
           in case outcome of
                Inl e \<Rightarrow> (Inl e, self')
              | Inr u \<Rightarrow> (Inr reference, self')))"

text \<open>The accumulated map of section 4.1 after the items have been stored in order: a
  key maps to the provider stored last under it. No item finds its provider there when,
  at each item, the provider is not among the values of the map accumulated from the
  items before it.\<close>

definition accumulated :: "(string \<times> inject) list \<Rightarrow> (string \<rightharpoonup> inject)" where
  "accumulated items = map_of (rev items)"

definition no_provider_present :: "(string \<times> inject) list \<Rightarrow> bool" where
  "no_provider_present items =
     (\<forall>i < length items. snd (items ! i) \<notin> ran (accumulated (take i items)))"

text \<open>All items of the chain, from the root's first to the handler's last.\<close>

definition layered_items :: "'conn handler_mixin \<Rightarrow> (string \<times> inject) list" where
  "layered_items self = concat (map dependencies_or_empty (ownership_layers self))"

text \<open>A chain for the examples: an application layer that owns the handler. A connection
  is the name of its user.\<close>

definition app_layer :: "string layer" where
  "app_layer =
     Layer (Some [(''db'', Inject 1)])
           (Some [Permission ''IsAuthenticated'' (\<lambda>user. user \<noteq> [])])
           (Some [(StatusCode 404, 1)])
           None"

definition handler_example :: "string handler_mixin" where
  "handler_example =
     \<lparr> this = Layer (Some [(''db'', Inject 2)])
                   (Some [Permission ''IsAdmin'' (\<lambda>user. user = ''admin''),
                          Permission ''IsStaff'' (\<lambda>user. user = ''staff'')])
                   (Some [(StatusCode 404, 2), (StatusCode 500, 3)])
                   (Some app_layer),
       signature_model = True, priv_permissions = None, priv_dependencies = None,
       objects = [] \<rparr>"

text \<open>Two more chains for the examples. In the first the root binds a provider under
  \<open>a\<close>, the layer below binds another provider under \<open>a\<close>, and the handler binds the
  root's provider under \<open>b\<close>. In the second the root and the handler bind the same
  provider under the same key.\<close>

definition overridden_example :: "string handler_mixin" where
  "overridden_example =
     \<lparr> this = Layer (Some [(''b'', Inject 1)]) None None
                (Some (Layer (Some [(''a'', Inject 2)]) None None
                  (Some (Layer (Some [(''a'', Inject 1)]) None None None)))),
       signature_model = True, priv_permissions = None, priv_dependencies = None,
       objects = [] \<rparr>"

definition same_key_example :: "string handler_mixin" where
  "same_key_example =
     \<lparr> this = Layer (Some [(''db'', Inject 1)]) None None
                (Some (Layer (Some [(''db'', Inject 1)]) None None None)),
       signature_model = True, priv_permissions = None, priv_dependencies = None,
       objects = [] \<rparr>"

text \<open>A chain whose handler binds under \<open>cache\<close> the provider that the application
  layer binds under \<open>db\<close>.\<close>

definition cross_key_example :: "string handler_mixin" where
  "cross_key_example =
     \<lparr> this = Layer (Some [(''cache'', Inject 1)]) None None (Some app_layer),
       signature_model = True, priv_permissions = None, priv_dependencies = None,
       objects = [] \<rparr>"

subsection \<open>Resolving the arguments of the handler function\<close>

text \<open>The request: its body, and how many times the body has been read.\<close>

record request =
  request_body :: string
  body_reads :: nat

text \<open>A raw argument: a value, or the coroutine that reads the body of the request when
  it is awaited.\<close>

datatype kwarg = Ready string | Body_coroutine

text \<open>\<^verbatim>\<open>KwargsModel\<close> is imported from \<^verbatim>\<open>esmerald.kwargs\<close>: its
  attribute \<^verbatim>\<open>has_kwargs\<close>, its methods \<^verbatim>\<open>to_kwargs\<close> and
  \<^verbatim>\<open>resolve_dependency\<close> and the keys of its \<^verbatim>\<open>expected_dependencies\<close> are the fields
  of the record.\<close>

record kwargs_model =
  has_kwargs :: bool
  to_kwargs :: "request \<Rightarrow> (string, kwarg) pydict"
  expected_dependencies :: "string list"
  resolve_dependency :: "string \<Rightarrow> request \<Rightarrow> (string, kwarg) pydict \<Rightarrow> string"

text \<open>The route: the handler function, which takes the owner when it is bound to one and
  the keyword arguments, the owner, and whether the owner is an \<^verbatim>\<open>APIView\<close>.\<close>

record 'r route =
  fn :: "string option \<Rightarrow> (string, string) pydict \<Rightarrow> 'r"
  route_owner :: "string option"
  owner_is_APIView :: bool

text \<open>Lines 326-328: the value under \<^verbatim>\<open>data\<close> is awaited when it is truthy. Awaiting
  the coroutine reads the body; a non-empty string is truthy and cannot be awaited.\<close>

definition await_request_data ::
  "(string, kwarg) pydict \<Rightarrow> request \<Rightarrow> error + (string, kwarg) pydict \<times> request" where
  "await_request_data kwargs req =
     (case map_of kwargs ''data'' of
        None \<Rightarrow> Inr (kwargs, req)
      | Some Body_coroutine \<Rightarrow>
          Inr (AList.update ''data'' (Ready (request_body req)) kwargs,
               req\<lparr>body_reads := Suc (body_reads req)\<rparr>)
      | Some (Ready s) \<Rightarrow> if s \<noteq> [] then Inl TypeError else Inr (kwargs, req))"

text \<open>Lines 329-332: each expected dependency is resolved from the arguments gathered so
  far and stored under its key.\<close>

definition resolve_dependencies ::
  "kwargs_model \<Rightarrow> request \<Rightarrow> (string, kwarg) pydict \<Rightarrow> (string, kwarg) pydict" where
  "resolve_dependencies parameter_model req kwargs =
     fold (\<lambda>dependency_key kwargs.
             AList.update dependency_key
               (Ready (resolve_dependency parameter_model dependency_key req kwargs)) kwargs)
          (expected_dependencies parameter_model) kwargs"

text \<open>Lines 324-337 of \<^verbatim>\<open>_get_response_data\<close>: the parsed keyword arguments, and the
  request afterwards. \<open>parse_values\<close> is
  \<^verbatim>\<open>signature_model.parse_values_from_connection_kwargs\<close>.\<close>

definition parsed_kwargs ::
  "kwargs_model \<Rightarrow> (request \<Rightarrow> (string, kwarg) pydict \<Rightarrow> error + (string, string) pydict)
    \<Rightarrow> request \<Rightarrow> (error + (string, string) pydict) \<times> request" where
  "parsed_kwargs parameter_model parse_values req =
     (if has_kwargs parameter_model then
        (case await_request_data (to_kwargs parameter_model req) req of
           Inl e \<Rightarrow> (Inl e, req)
         | Inr (kwargs, req') \<Rightarrow>
             (parse_values req' (resolve_dependencies parameter_model req' kwargs), req'))
      else (Inr [], req))"

text \<open>\<^verbatim>\<open>_get_response_data\<close>, lines 313-350: what the handler function returns,
  awaited when the function is asynchronous, and the request afterwards.\<close>

definition priv_get_response_data ::
  "'r route \<Rightarrow> kwargs_model
    \<Rightarrow> (request \<Rightarrow> (string, kwarg) pydict \<Rightarrow> error + (string, string) pydict)
    \<Rightarrow> request \<Rightarrow> (error + 'r) \<times> request" where
  "priv_get_response_data route parameter_model parse_values req =
     (case parsed_kwargs parameter_model parse_values req of
        (Inl e, req') \<Rightarrow> (Inl e, req')
      | (Inr parsed, req') \<Rightarrow>
          (if owner_is_APIView route
           then (Inr (fn route (route_owner route) parsed), req')
           else (Inr (fn route None parsed), req')))"

text \<open>A parameter model for the examples, of a handler that declares the parameter
  \<open>data\<close>, and a route whose function returns the arguments it is called with.\<close>

definition data_model :: "bool \<Rightarrow> kwargs_model" where
  "data_model declared =
     \<lparr> has_kwargs = declared, to_kwargs = (\<lambda>req. [(''data'', Body_coroutine)]),
       expected_dependencies = [], resolve_dependency = (\<lambda>k req kwargs. []) \<rparr>"

definition echo_route :: "(string option \<times> (string, string) pydict) route" where
  "echo_route = \<lparr> fn = (\<lambda>owner kwargs. (owner, kwargs)), route_owner = None,
                  owner_is_APIView = False \<rparr>"

definition parse_ready ::
  "request \<Rightarrow> (string, kwarg) pydict \<Rightarrow> error + (string, string) pydict" where
  "parse_ready req kwargs =
     Inr (map (\<lambda>(k, v). (k, case v of Ready s \<Rightarrow> s | Body_coroutine \<Rightarrow> [])) kwargs)"

section \<open>Properties\<close>

subsection \<open>Cookie merge\<close>

lemma append_unique_append:
  "append_unique f (xs @ ys) = append_unique (append_unique f xs) ys"
  by (induction xs arbitrary: f) simp_all

lemma keys_append_unique:
  "key ` set (append_unique f xs) = key ` (set f \<union> set xs)"
  by (induction xs arbitrary: f) (auto simp: list_ex_iff)

lemma append_unique_snoc:
  "append_unique f (xs @ [c]) =
     (if key c \<in> key ` (set f \<union> set xs) then append_unique f xs
      else append_unique f xs @ [c])"
proof -
  have "list_ex (\<lambda>c'. key c = key c') (append_unique f xs)
          \<longleftrightarrow> key c \<in> key ` set (append_unique f xs)"
    by (auto simp: list_ex_iff)
  then show ?thesis
    by (simp add: append_unique_append keys_append_unique)
qed

lemma append_unique_prefix: "take (length f) (append_unique f xs) = f"
proof -
  have "\<exists>ys. append_unique f xs = f @ ys"
  proof (induction xs arbitrary: f)
    case Nil
    show ?case by simp
  next
    case (Cons a xs)
    obtain ys where "append_unique (f @ [a]) xs = (f @ [a]) @ ys"
      using Cons.IH by blast
    then have "append_unique (f @ [a]) xs = f @ (a # ys)" by simp
    with Cons.IH [of f] show ?case by auto
  qed
  then show ?thesis by auto
qed

lemma get_cookies_snoc:
  "get_cookies l (pre @ [c]) =
     (if key c \<in> key ` (set l \<union> set pre) then get_cookies l pre
      else get_cookies l pre @ [cookie_dict c])"
  unfolding get_cookies_def by (simp add: append_unique_snoc)

lemma get_cookies_prefix:
  "take (length l) (get_cookies l other) = map cookie_dict l"
  unfolding get_cookies_def
  by (simp add: take_map append_unique_prefix)

lemma map_of_exclude_none:
  "distinct (map fst fs) \<Longrightarrow> map_of (exclude_none fs) n = Option.bind (map_of fs n) id"
proof (induction fs rule: exclude_none.induct)
  case 1
  show ?case by simp
next
  case (2 m fs)
  from "2.prems" have "map_of fs m = None"
    by (simp add: map_of_eq_None_iff)
  with 2 show ?case by simp
next
  case (3 m v fs)
  then show ?case by auto
qed

lemma cookie_dict_fields:
  "map_of (cookie_dict c) ''key'' = Some (VStr (key c))"
  "map_of (cookie_dict c) ''value'' = map_option VStr (cookie_value c)"
  "map_of (cookie_dict c) ''max_age'' = map_option VInt (max_age c)"
  "map_of (cookie_dict c) ''expires'' = map_option VInt (expires c)"
  "map_of (cookie_dict c) ''path'' = Some (VStr (path c))"
  "map_of (cookie_dict c) ''domain'' = map_option VStr (domain c)"
  "map_of (cookie_dict c) ''secure'' = map_option VBool (secure c)"
  "map_of (cookie_dict c) ''httponly'' = map_option VBool (httponly c)"
  "map_of (cookie_dict c) ''samesite'' = Some (VStr (samesite_str (samesite c)))"
  "map_of (cookie_dict c) ''description'' = None"
  unfolding cookie_dict_def model_dump_def
  by (simp_all add: map_of_exclude_none bind_map_option)

lemma cookie_dict_example:
  "cookie_dict (Cookie k v) =
     [(''key'', VStr k), (''value'', VStr v), (''path'', VStr ''/''), (''samesite'', VStr ''lax'')]"
  by (simp add: cookie_dict_def model_dump_def Cookie_def)

lemma key_Cookie: "key (Cookie k v) = k"
  by (simp add: Cookie_def)

text \<open>
  C4 (amended). \<open>get_cookies\<close> keeps all local cookies, in order, at the front of its
  result. Going through the other cookies from first to last, it appends a cookie exactly
  when no local cookie and no earlier other cookie shares its key. Each kept cookie is
  serialised to a mapping that holds every field whose value is not \<open>None\<close> and never
  the description. Local \<open>[Cookie a 1]\<close> merged with other \<open>[Cookie a 2, Cookie b 3]\<close>
  gives the serialisations of \<open>Cookie a 1\<close> and \<open>Cookie b 3\<close>, each with the declared
  defaults of path and samesite.
\<close>

theorem get_cookies_merge:
  "get_cookies local_cookies [] = map cookie_dict local_cookies
   \<and> get_cookies local_cookies (earlier @ [c]) =
       (if key c \<in> key ` (set local_cookies \<union> set earlier)
        then get_cookies local_cookies earlier
        else get_cookies local_cookies earlier @ [cookie_dict c])
   \<and> take (length local_cookies) (get_cookies local_cookies other_cookies)
       = map cookie_dict local_cookies
   \<and> map_of (cookie_dict c) ''key'' = Some (VStr (key c))
   \<and> map_of (cookie_dict c) ''value'' = map_option VStr (cookie_value c)
   \<and> map_of (cookie_dict c) ''max_age'' = map_option VInt (max_age c)
   \<and> map_of (cookie_dict c) ''expires'' = map_option VInt (expires c)
   \<and> map_of (cookie_dict c) ''path'' = Some (VStr (path c))
   \<and> map_of (cookie_dict c) ''domain'' = map_option VStr (domain c)
   \<and> map_of (cookie_dict c) ''secure'' = map_option VBool (secure c)
   \<and> map_of (cookie_dict c) ''httponly'' = map_option VBool (httponly c)
   \<and> map_of (cookie_dict c) ''samesite'' = Some (VStr (samesite_str (samesite c)))
   \<and> map_of (cookie_dict c) ''description'' = None
   \<and> get_cookies [Cookie ''a'' ''1''] [Cookie ''a'' ''2'', Cookie ''b'' ''3'']
       = [cookie_dict (Cookie ''a'' ''1''), cookie_dict (Cookie ''b'' ''3'')]
   \<and> cookie_dict (Cookie ''a'' ''1'')
       = [(''key'', VStr ''a''), (''value'', VStr ''1''), (''path'', VStr ''/''),
          (''samesite'', VStr ''lax'')]"
proof -
  have base: "get_cookies local_cookies [] = map cookie_dict local_cookies"
    by (simp add: get_cookies_def)
  have ex: "get_cookies [Cookie ''a'' ''1''] [Cookie ''a'' ''2'', Cookie ''b'' ''3'']
       = [cookie_dict (Cookie ''a'' ''1''), cookie_dict (Cookie ''b'' ''3'')]"
    by (simp add: get_cookies_def key_Cookie)
  show ?thesis
    using base ex get_cookies_snoc [of local_cookies earlier c]
      get_cookies_prefix [of local_cookies other_cookies]
      cookie_dict_fields [of c] cookie_dict_example [of "''a''" "''1''"]
    by simp
qed

text \<open>
  C4 as stated fails when two other cookies share a key that no local cookie has: with no
  local cookie, both \<open>Cookie b 3\<close> and \<open>Cookie b 4\<close> would have to be appended, and only
  the first is.
\<close>

theorem get_cookies_duplicate_other_counterexample:
  "get_cookies [] [Cookie ''b'' ''3'', Cookie ''b'' ''4''] = [cookie_dict (Cookie ''b'' ''3'')]
   \<and> get_cookies [] [Cookie ''b'' ''3'', Cookie ''b'' ''4'']
       \<noteq> [cookie_dict (Cookie ''b'' ''3''), cookie_dict (Cookie ''b'' ''4'')]"
  by (simp add: get_cookies_def key_Cookie)

subsection \<open>Dictionaries\<close>

lemma map_of_dict_update: "map_of (dict_update d other) = map_of d ++ map_of (rev other)"
  unfolding dict_update_def
proof (induction other arbitrary: d)
  case Nil
  show ?case by simp
next
  case (Cons a other)
  obtain k v where a: "a = (k, v)" by (cases a)
  have "map_of (fold (\<lambda>(k, v) acc. AList.update k v acc) (a # other) d)
          = map_of (AList.update k v d) ++ map_of (rev other)"
    by (simp add: a Cons.IH)
  also have "\<dots> = map_of d ++ map_of (rev (a # other))"
    by (rule ext) (simp add: a update_conv' map_add_def split: option.split)
  finally show ?case .
qed

lemma distinct_dict_update:
  "distinct (map fst d) \<Longrightarrow> distinct (map fst (dict_update d other))"
  unfolding dict_update_def
  by (induction other arbitrary: d) (auto simp: distinct_update)

lemma map_of_rev_distinct:
  "distinct (map fst xs) \<Longrightarrow> map_of (rev xs) = map_of xs"
proof (induction xs)
  case Nil
  show ?case by simp
next
  case (Cons a xs)
  obtain k v where a: "a = (k, v)" by (cases a)
  from Cons.prems have k: "map_of xs k = None"
    by (simp add: a map_of_eq_None_iff)
  from Cons have ih: "map_of (rev xs) = map_of xs" by simp
  show ?case
    by (rule ext) (simp add: a ih k map_add_def split: option.split)
qed

subsection \<open>Response handlers\<close>

lemma set_cookie_calls_fold:
  "set_cookie_calls (fold set_cookie cs r) = set_cookie_calls r @ cs"
  by (induction cs arbitrary: r) (simp_all add: set_cookie_def)

lemma fold_set_cookie_fields:
  "status_code (fold set_cookie cs r) = status_code r"
  "media_type (fold set_cookie cs r) = media_type r"
  "headers (fold set_cookie cs r) = headers r"
  "body (fold set_cookie cs r) = body r"
  "background (fold set_cookie cs r) = background r"
  "starlette_response.more (fold set_cookie cs r) = starlette_response.more r"
  by (induction cs arbitrary: r) (simp_all add: set_cookie_def)

lemma get_cookies_Nil: "get_cookies cs [] = map cookie_dict cs"
  by (simp add: get_cookies_def)

text \<open>
  C8. The JSON response handler returns the response it is given with the status code
  replaced by the configured one when that is truthy (an integer other than 0), and
  unchanged otherwise: headers, media type, body, background, cookies already set, and
  every field of a subclass (the declared cookies of a \<open>response\<close> among them) are those
  of the input.
\<close>

theorem json_response_handler_frame:
  "status_code (create_json_response_handler configured data)
     = (case configured of None \<Rightarrow> status_code data
        | Some n \<Rightarrow> if n \<noteq> 0 then n else status_code data)
   \<and> (create_json_response_handler configured data)\<lparr>status_code := status_code data\<rparr> = data
   \<and> headers (create_json_response_handler configured data) = headers data
   \<and> media_type (create_json_response_handler configured data) = media_type data
   \<and> body (create_json_response_handler configured data) = body data
   \<and> background (create_json_response_handler configured data) = background data
   \<and> set_cookie_calls (create_json_response_handler configured data) = set_cookie_calls data
   \<and> starlette_response.more (create_json_response_handler configured data)
       = starlette_response.more data
   \<and> cookies (create_json_response_handler configured r) = cookies r
   \<and> create_json_response_handler None data = data"
  by (cases configured) (simp_all add: create_json_response_handler_def)

lemma headers_create_starlette_response_handler:
  "headers (create_starlette_response_handler al cs hs mt d)
     = dict_update (headers d) (merged_headers hs (headers d) al)"
  by (simp add: create_starlette_response_handler_def Let_def fold_set_cookie_fields)

lemma headers_create_response_handler:
  "headers (create_response_handler al cs hs sc mt d)
     = dict_update (headers d) (merged_headers hs (headers d) al)"
  by (simp add: create_response_handler_def Let_def fold_set_cookie_fields)

lemma distinct_get_headers: "distinct (map fst (get_headers hs))"
  unfolding get_headers_def by (rule distinct_dict_update) simp

lemma map_of_get_headers:
  "distinct (map fst hs) \<Longrightarrow> map_of (get_headers hs) = map_option header_value \<circ> map_of hs"
proof -
  assume d: "distinct (map fst hs)"
  have "fst \<circ> (\<lambda>(k, v). (k, header_value v)) = (fst :: string \<times> response_header \<Rightarrow> string)"
    by (rule ext) (simp split: prod.split)
  with d have "distinct (map fst (map (\<lambda>(k, v). (k, header_value v)) hs))"
    by simp
  then have "map_of (get_headers hs) = map_of (map (\<lambda>(k, v). (k, header_value v)) hs)"
    by (simp add: get_headers_def map_of_dict_update map_of_rev_distinct)
  then show ?thesis
    by (simp add: map_of_map)
qed

lemma map_of_merged_headers:
  "distinct (map fst dh) \<Longrightarrow> distinct (map fst al) \<Longrightarrow>
   map_of (merged_headers hs dh al) = map_of (get_headers hs) ++ map_of dh ++ map_of al"
  by (simp add: merged_headers_def map_of_dict_update map_of_rev_distinct
      distinct_get_headers)

lemma distinct_merged_headers: "distinct (map fst (merged_headers hs dh al))"
  unfolding merged_headers_def by (intro distinct_dict_update) simp

lemma map_add_absorb: "m ++ a ++ m ++ c = a ++ m ++ (c :: 'k \<rightharpoonup> 'v)"
  by (rule ext) (simp add: map_add_def split: option.split)

text \<open>
  C7 (amended). The transport-native response handler merges headers as the generic
  response handler does: on the same response both leave the same headers, which map a
  name to the allow header's value, else to the response's own value, else to the value of
  the handler's declaration. It sets the configured media type whatever its value. For
  cookies it calls \<open>set_cookie\<close> once for each cookie of the handler, in order,
  serialised by \<open>get_cookies\<close> with the handler's cookies as the local list and no other
  cookies. Status code, body and background are left as they are.
\<close>

theorem starlette_response_handler_merge:
  assumes "distinct (map fst headers')"
    and "distinct (map fst (headers data))"
    and "distinct (map fst allow_header)"
  shows "headers (create_starlette_response_handler allow_header cookies' headers' media_type' r)
           = headers (create_response_handler allow_header cookies' headers' status_code'
                        media_type'' r)
   \<and> map_of (headers (create_starlette_response_handler allow_header cookies' headers'
                media_type' data))
       = (map_option header_value \<circ> map_of headers') ++ map_of (headers data)
           ++ map_of allow_header
   \<and> media_type (create_starlette_response_handler allow_header cookies' headers'
         media_type' data) = media_type'
   \<and> set_cookie_calls (create_starlette_response_handler allow_header cookies' headers'
         media_type' data)
       = set_cookie_calls data @ get_cookies cookies' []
   \<and> get_cookies cookies' [] = map cookie_dict cookies'
   \<and> status_code (create_starlette_response_handler allow_header cookies' headers'
         media_type' data) = status_code data
   \<and> body (create_starlette_response_handler allow_header cookies' headers'
         media_type' data) = body data
   \<and> background (create_starlette_response_handler allow_header cookies' headers'
         media_type' data) = background data"
proof -
  have same: "headers (create_starlette_response_handler allow_header cookies' headers' media_type' r)
           = headers (create_response_handler allow_header cookies' headers' status_code'
                        media_type'' r)"
    by (simp only: headers_create_starlette_response_handler headers_create_response_handler)
  have look: "map_of (headers (create_starlette_response_handler allow_header cookies' headers'
                media_type' data))
       = (map_option header_value \<circ> map_of headers') ++ map_of (headers data)
           ++ map_of allow_header"
    using assms
    by (simp add: headers_create_starlette_response_handler map_of_dict_update
        map_of_rev_distinct distinct_merged_headers map_of_merged_headers
        map_of_get_headers map_add_absorb)
  have rest: "media_type (create_starlette_response_handler allow_header cookies' headers'
         media_type' data) = media_type'"
    "set_cookie_calls (create_starlette_response_handler allow_header cookies' headers'
         media_type' data) = set_cookie_calls data @ get_cookies cookies' []"
    "status_code (create_starlette_response_handler allow_header cookies' headers'
         media_type' data) = status_code data"
    "body (create_starlette_response_handler allow_header cookies' headers'
         media_type' data) = body data"
    "background (create_starlette_response_handler allow_header cookies' headers'
         media_type' data) = background data"
    by (simp_all add: create_starlette_response_handler_def Let_def fold_set_cookie_fields
        set_cookie_calls_fold)
  show ?thesis
    using same look rest get_cookies_Nil [of cookies'] by simp
qed

theorem starlette_response_handler_merge_witness:
  "distinct (map fst [(''x-a'', \<lparr>header_value = Some ''1''\<rparr>)])
   \<and> distinct (map fst (headers \<lparr>status_code = 200, media_type = None,
         headers = [(''x-a'', Some ''2''), (''x-b'', Some ''3'')], body = [],
         background = None, set_cookie_calls = [], cookies = []\<rparr>))
   \<and> distinct (map fst [(''allow'', Some ''GET'')])
   \<and> headers (create_starlette_response_handler [(''allow'', Some ''GET'')]
         [Cookie ''a'' ''1''] [(''x-a'', \<lparr>header_value = Some ''1''\<rparr>)]
         (Some (MediaTypeStr ''text/plain''))
         \<lparr>status_code = 200, media_type = None,
           headers = [(''x-a'', Some ''2''), (''x-b'', Some ''3'')], body = [],
           background = None, set_cookie_calls = [], cookies = []\<rparr>)
       = [(''x-a'', Some ''2''), (''x-b'', Some ''3''), (''allow'', Some ''GET'')]
   \<and> media_type (create_starlette_response_handler [(''allow'', Some ''GET'')]
         [Cookie ''a'' ''1''] [(''x-a'', \<lparr>header_value = Some ''1''\<rparr>)]
         (Some (MediaTypeStr ''text/plain''))
         \<lparr>status_code = 200, media_type = None,
           headers = [(''x-a'', Some ''2''), (''x-b'', Some ''3'')], body = [],
           background = None, set_cookie_calls = [], cookies = []\<rparr>)
       = Some (MediaTypeStr ''text/plain'')"
  using starlette_response_handler_merge
    [of "[(''x-a'', \<lparr>header_value = Some ''1''\<rparr>)]"
        "\<lparr>status_code = 200, media_type = None,
           headers = [(''x-a'', Some ''2''), (''x-b'', Some ''3'')], body = [],
           background = None, set_cookie_calls = [], cookies = []\<rparr>"
        "[(''allow'', Some ''GET'')]" "[Cookie ''a'' ''1'']"
        "Some (MediaTypeStr ''text/plain'')"]
  by (simp add: create_starlette_response_handler_def Let_def get_cookies_def set_cookie_def
      merged_headers_def get_headers_def dict_update_def)

text \<open>
  C7 as stated fails on the cookies. With two handler cookies of the same key and a
  response that declares no cookie, the generic response handler sets one cookie (the
  second is dropped by the merge) and the transport-native handler sets both.
\<close>

theorem starlette_response_handler_cookies_counterexample:
  "set_cookie_calls (create_response_handler [] [Cookie ''a'' ''1'', Cookie ''a'' ''2''] []
       None None
       \<lparr>status_code = 200, media_type = None, headers = [], body = [], background = None,
         set_cookie_calls = [], cookies = []\<rparr>)
     = [cookie_dict (Cookie ''a'' ''1'')]
   \<and> set_cookie_calls (create_starlette_response_handler [] [Cookie ''a'' ''1'', Cookie ''a'' ''2'']
       [] None
       \<lparr>status_code = 200, media_type = None, headers = [], body = [], background = None,
         set_cookie_calls = [], cookies = []\<rparr>)
     = [cookie_dict (Cookie ''a'' ''1''), cookie_dict (Cookie ''a'' ''2'')]
   \<and> cookie_dict (Cookie ''a'' ''1'') \<noteq> cookie_dict (Cookie ''a'' ''2'')"
  by (simp add: create_response_handler_def create_starlette_response_handler_def Let_def
      get_cookies_def set_cookie_def key_Cookie cookie_dict_example)

subsection \<open>Selecting the response handler\<close>

lemma get_response_handler_cached:
  "priv_response_handler self = Some cached \<Longrightarrow>
   get_response_handler is_sub self = (cached, self)"
  by (simp add: get_response_handler_def)

lemma get_response_handler_stores:
  "priv_response_handler self = None \<Longrightarrow>
   snd (get_response_handler is_sub self)
     = self\<lparr>priv_response_handler := Some (fst (get_response_handler is_sub self))\<rparr>"
  by (simp add: get_response_handler_def Let_def)

lemma get_response_handler_slot:
  "priv_response_handler (snd (get_response_handler is_sub self))
     = Some (fst (get_response_handler is_sub self))"
  by (cases "priv_response_handler self") (simp_all add: get_response_handler_def Let_def)

lemma get_response_handler_strategy:
  "priv_response_handler self = None \<Longrightarrow>
   strategy_of (fst (get_response_handler is_sub self))
     = (if is_sub (return_annotation self) ResponseContainer_class then Container
        else if is_sub (return_annotation self) JSONResponse_or_ORJSONResponse then PrebuiltJSON
        else if is_sub (return_annotation self) Response_class then GenericResponse
        else if is_sub (return_annotation self) StarletteResponse_class then NativeResponse
        else PlainValue)"
  by (simp add: get_response_handler_def Let_def)

lemma first_match_unfold:
  "first_match is_sub ann
     = (if is_sub ann ResponseContainer_class then Container
        else if is_sub ann JSONResponse_or_ORJSONResponse then PrebuiltJSON
        else if is_sub ann Response_class then GenericResponse
        else if is_sub ann StarletteResponse_class then NativeResponse
        else PlainValue)"
  by (simp add: first_match_def precedence_def)

text \<open>
  C2. On first access (the slot \<^verbatim>\<open>_response_handler\<close> is unset)
  \<open>get_response_handler\<close> builds the closure of exactly one strategy, the one of the first
  class, in the order container, pre-built JSON response, generic response,
  transport-native response, that the declared return annotation matches, and the
  plain-value fallback when it matches none. The choice reads the annotation only: no
  returned value is an argument. The closure is stored in the slot and nothing else
  changes. Every later call returns the stored closure and leaves the handler as it is,
  whatever the annotation, the configuration and the class test are by then.
\<close>

theorem get_response_handler_static_dispatch:
  "(priv_response_handler self = None \<longrightarrow>
      strategy_of (fst (get_response_handler is_sub self))
        = first_match is_sub (return_annotation self)
      \<and> (is_sub (return_annotation self) ResponseContainer_class \<longrightarrow>
           strategy_of (fst (get_response_handler is_sub self)) = Container)
      \<and> (\<not> is_sub (return_annotation self) ResponseContainer_class
           \<and> is_sub (return_annotation self) JSONResponse_or_ORJSONResponse \<longrightarrow>
           strategy_of (fst (get_response_handler is_sub self)) = PrebuiltJSON)
      \<and> (\<not> is_sub (return_annotation self) ResponseContainer_class
           \<and> \<not> is_sub (return_annotation self) JSONResponse_or_ORJSONResponse
           \<and> is_sub (return_annotation self) Response_class \<longrightarrow>
           strategy_of (fst (get_response_handler is_sub self)) = GenericResponse)
      \<and> (\<not> is_sub (return_annotation self) ResponseContainer_class
           \<and> \<not> is_sub (return_annotation self) JSONResponse_or_ORJSONResponse
           \<and> \<not> is_sub (return_annotation self) Response_class
           \<and> is_sub (return_annotation self) StarletteResponse_class \<longrightarrow>
           strategy_of (fst (get_response_handler is_sub self)) = NativeResponse)
      \<and> (\<not> is_sub (return_annotation self) ResponseContainer_class
           \<and> \<not> is_sub (return_annotation self) JSONResponse_or_ORJSONResponse
           \<and> \<not> is_sub (return_annotation self) Response_class
           \<and> \<not> is_sub (return_annotation self) StarletteResponse_class \<longrightarrow>
           strategy_of (fst (get_response_handler is_sub self)) = PlainValue)
      \<and> snd (get_response_handler is_sub self)
          = self\<lparr>priv_response_handler := Some (fst (get_response_handler is_sub self))\<rparr>)
   \<and> (priv_response_handler later = Some cached \<longrightarrow>
        get_response_handler is_sub' later = (cached, later))
   \<and> get_response_handler is_sub' (snd (get_response_handler is_sub self))
       = (fst (get_response_handler is_sub self), snd (get_response_handler is_sub self))
   \<and> get_response_handler is_sub'
        ((snd (get_response_handler is_sub self))\<lparr>return_annotation := ann',
            self_status_code := status', self_media_type := media'\<rparr>)
       = (fst (get_response_handler is_sub self),
          (snd (get_response_handler is_sub self))\<lparr>return_annotation := ann',
            self_status_code := status', self_media_type := media'\<rparr>)"
proof -
  have fresh: "priv_response_handler self = None \<longrightarrow>
      strategy_of (fst (get_response_handler is_sub self))
        = first_match is_sub (return_annotation self)
      \<and> (is_sub (return_annotation self) ResponseContainer_class \<longrightarrow>
           strategy_of (fst (get_response_handler is_sub self)) = Container)
      \<and> (\<not> is_sub (return_annotation self) ResponseContainer_class
           \<and> is_sub (return_annotation self) JSONResponse_or_ORJSONResponse \<longrightarrow>
           strategy_of (fst (get_response_handler is_sub self)) = PrebuiltJSON)
      \<and> (\<not> is_sub (return_annotation self) ResponseContainer_class
           \<and> \<not> is_sub (return_annotation self) JSONResponse_or_ORJSONResponse
           \<and> is_sub (return_annotation self) Response_class \<longrightarrow>
           strategy_of (fst (get_response_handler is_sub self)) = GenericResponse)
      \<and> (\<not> is_sub (return_annotation self) ResponseContainer_class
           \<and> \<not> is_sub (return_annotation self) JSONResponse_or_ORJSONResponse
           \<and> \<not> is_sub (return_annotation self) Response_class
           \<and> is_sub (return_annotation self) StarletteResponse_class \<longrightarrow>
           strategy_of (fst (get_response_handler is_sub self)) = NativeResponse)
      \<and> (\<not> is_sub (return_annotation self) ResponseContainer_class
           \<and> \<not> is_sub (return_annotation self) JSONResponse_or_ORJSONResponse
           \<and> \<not> is_sub (return_annotation self) Response_class
           \<and> \<not> is_sub (return_annotation self) StarletteResponse_class \<longrightarrow>
           strategy_of (fst (get_response_handler is_sub self)) = PlainValue)
      \<and> snd (get_response_handler is_sub self)
          = self\<lparr>priv_response_handler := Some (fst (get_response_handler is_sub self))\<rparr>"
  proof
    assume n: "priv_response_handler self = None"
    have st: "snd (get_response_handler is_sub self)
          = self\<lparr>priv_response_handler := Some (fst (get_response_handler is_sub self))\<rparr>"
      by (rule get_response_handler_stores [OF n])
    have "strategy_of (fst (get_response_handler is_sub self))
        = first_match is_sub (return_annotation self)"
      by (simp add: get_response_handler_strategy [OF n] first_match_unfold)
    moreover have "is_sub (return_annotation self) ResponseContainer_class \<longrightarrow>
           strategy_of (fst (get_response_handler is_sub self)) = Container"
      by (simp add: get_response_handler_strategy [OF n])
    moreover have "\<not> is_sub (return_annotation self) ResponseContainer_class
           \<and> is_sub (return_annotation self) JSONResponse_or_ORJSONResponse \<longrightarrow>
           strategy_of (fst (get_response_handler is_sub self)) = PrebuiltJSON"
      by (simp add: get_response_handler_strategy [OF n])
    moreover have "\<not> is_sub (return_annotation self) ResponseContainer_class
           \<and> \<not> is_sub (return_annotation self) JSONResponse_or_ORJSONResponse
           \<and> is_sub (return_annotation self) Response_class \<longrightarrow>
           strategy_of (fst (get_response_handler is_sub self)) = GenericResponse"
      by (simp add: get_response_handler_strategy [OF n])
    moreover have "\<not> is_sub (return_annotation self) ResponseContainer_class
           \<and> \<not> is_sub (return_annotation self) JSONResponse_or_ORJSONResponse
           \<and> \<not> is_sub (return_annotation self) Response_class
           \<and> is_sub (return_annotation self) StarletteResponse_class \<longrightarrow>
           strategy_of (fst (get_response_handler is_sub self)) = NativeResponse"
      by (simp add: get_response_handler_strategy [OF n])
    moreover have "\<not> is_sub (return_annotation self) ResponseContainer_class
           \<and> \<not> is_sub (return_annotation self) JSONResponse_or_ORJSONResponse
           \<and> \<not> is_sub (return_annotation self) Response_class
           \<and> \<not> is_sub (return_annotation self) StarletteResponse_class \<longrightarrow>
           strategy_of (fst (get_response_handler is_sub self)) = PlainValue"
      by (simp add: get_response_handler_strategy [OF n])
    ultimately show "strategy_of (fst (get_response_handler is_sub self))
        = first_match is_sub (return_annotation self)
      \<and> (is_sub (return_annotation self) ResponseContainer_class \<longrightarrow>
           strategy_of (fst (get_response_handler is_sub self)) = Container)
      \<and> (\<not> is_sub (return_annotation self) ResponseContainer_class
           \<and> is_sub (return_annotation self) JSONResponse_or_ORJSONResponse \<longrightarrow>
           strategy_of (fst (get_response_handler is_sub self)) = PrebuiltJSON)
      \<and> (\<not> is_sub (return_annotation self) ResponseContainer_class
           \<and> \<not> is_sub (return_annotation self) JSONResponse_or_ORJSONResponse
           \<and> is_sub (return_annotation self) Response_class \<longrightarrow>
           strategy_of (fst (get_response_handler is_sub self)) = GenericResponse)
      \<and> (\<not> is_sub (return_annotation self) ResponseContainer_class
           \<and> \<not> is_sub (return_annotation self) JSONResponse_or_ORJSONResponse
           \<and> \<not> is_sub (return_annotation self) Response_class
           \<and> is_sub (return_annotation self) StarletteResponse_class \<longrightarrow>
           strategy_of (fst (get_response_handler is_sub self)) = NativeResponse)
      \<and> (\<not> is_sub (return_annotation self) ResponseContainer_class
           \<and> \<not> is_sub (return_annotation self) JSONResponse_or_ORJSONResponse
           \<and> \<not> is_sub (return_annotation self) Response_class
           \<and> \<not> is_sub (return_annotation self) StarletteResponse_class \<longrightarrow>
           strategy_of (fst (get_response_handler is_sub self)) = PlainValue)
      \<and> snd (get_response_handler is_sub self)
          = self\<lparr>priv_response_handler := Some (fst (get_response_handler is_sub self))\<rparr>"
      using st by blast
  qed
  have later: "priv_response_handler later = Some cached \<longrightarrow>
        get_response_handler is_sub' later = (cached, later)"
    by (simp add: get_response_handler_cached)
  have again: "get_response_handler is_sub' (snd (get_response_handler is_sub self))
       = (fst (get_response_handler is_sub self), snd (get_response_handler is_sub self))"
    by (rule get_response_handler_cached) (rule get_response_handler_slot)
  have changed: "get_response_handler is_sub'
        ((snd (get_response_handler is_sub self))\<lparr>return_annotation := ann',
            self_status_code := status', self_media_type := media'\<rparr>)
       = (fst (get_response_handler is_sub self),
          (snd (get_response_handler is_sub self))\<lparr>return_annotation := ann',
            self_status_code := status', self_media_type := media'\<rparr>)"
    by (rule get_response_handler_cached) (simp add: get_response_handler_slot)
  from fresh later again changed show ?thesis
    by blast
qed

theorem get_response_handler_static_dispatch_witness:
  "priv_response_handler json_handler_example = None
   \<and> \<not> is_listed (return_annotation json_handler_example) ResponseContainer_class
   \<and> is_listed (return_annotation json_handler_example) JSONResponse_or_ORJSONResponse
   \<and> is_listed (return_annotation json_handler_example) StarletteResponse_class
   \<and> fst (get_response_handler is_listed json_handler_example)
       = Json_response_handler (Some 200)
   \<and> strategy_of (fst (get_response_handler is_listed json_handler_example)) = PrebuiltJSON
   \<and> priv_response_handler (snd (get_response_handler is_listed json_handler_example))
       = Some (Json_response_handler (Some 200))
   \<and> fst (get_response_handler is_listed
        ((snd (get_response_handler is_listed json_handler_example))
           \<lparr>return_annotation := [ResponseContainer_class], self_status_code := 404,
             self_media_type := MediaTypeStr ''text/html''\<rparr>))
       = Json_response_handler (Some 200)"
  using get_response_handler_static_dispatch
    [where self = json_handler_example and is_sub = is_listed
       and later = "snd (get_response_handler is_listed json_handler_example)"
       and cached = "Json_response_handler (Some 200)" and is_sub' = is_listed
       and ann' = "[ResponseContainer_class]" and status' = 404
       and media' = "MediaTypeStr ''text/html''"]
  by (simp add: json_handler_example_def is_listed_def get_response_handler_def Let_def)

subsection \<open>The plain-value handler\<close>

lemma create_handler_Plain:
  "create_handler b cs hs m rc s (Now (Plain d))
     = (case rc b d (declared_headers hs) m s of
          Inl e \<Rightarrow> Inl e
        | Inr response \<Rightarrow> Inr (fold set_cookie (get_cookies cs []) response))"
  by (simp add: create_handler_def Let_def)

lemma create_handler_Awaitable:
  "create_handler b cs hs m rc s (Awaitable d) = create_handler b cs hs m rc s (Now d)"
  by (simp add: create_handler_def Let_def)

text \<open>
  C5. The handler of the example has status code 201, the JSON media type, one declared
  response header \<open>x-a\<close> and a return annotation that matches none of the four response
  classes, so \<open>get_response_handler\<close> builds the plain-value closure. Called with the
  dictionary that the handler function returns, the closure hands the response class the
  declaration of \<open>x-a\<close> where a header value is expected, and the constructor raises: no
  response with status code 201 comes out. Whatever the response class, the closure calls
  it with the declarations as they are. The same call with no declared header returns the
  response with status code 201, the media type and the serialised dictionary as body, and
  so does the constructor when it is given the headers projected by \<open>get_headers\<close>, as
  the other closures project them.
\<close>

theorem create_handler_passes_declarations:
  "fst (get_response_handler is_listed dict_handler_example)
     = Handler None [Cookie ''a'' ''1''] [(''x-a'', \<lparr>header_value = Some ''1''\<rparr>)]
         ''application/json'' (response_class_of render_items) 201
   \<and> create_handler None [Cookie ''a'' ''1''] [(''x-a'', \<lparr>header_value = Some ''1''\<rparr>)]
         ''application/json'' (response_class_of render_items) 201
         (Now (Plain [(''id'', ''7'')]))
       = Inl AttributeError
   \<and> create_handler background' cookies' headers' media_type' response_class' status_code'
         (Now (Plain content))
       = (case response_class' background' content (declared_headers headers') media_type'
                 status_code' of
            Inl e \<Rightarrow> Inl e
          | Inr response \<Rightarrow> Inr (fold set_cookie (get_cookies cookies' []) response))
   \<and> declared_headers [(''x-a'', \<lparr>header_value = Some ''1''\<rparr>)]
       = [(''x-a'', Header_declaration \<lparr>header_value = Some ''1''\<rparr>)]
   \<and> create_handler None [Cookie ''a'' ''1''] [] ''application/json''
         (response_class_of render_items) 201 (Now (Plain [(''id'', ''7'')]))
       = Inr \<lparr> status_code = 201, media_type = Some (MediaTypeStr ''application/json''),
               headers = [], body = ''id=7;'', background = None,
               set_cookie_calls = [cookie_dict (Cookie ''a'' ''1'')], cookies = [] \<rparr>
   \<and> response_class_of render_items None [(''id'', ''7'')]
         (map (\<lambda>(k, v). (k, Header_value v))
            (get_headers [(''x-a'', \<lparr>header_value = Some ''1''\<rparr>)]))
         ''application/json'' 201
       = Inr \<lparr> status_code = 201, media_type = Some (MediaTypeStr ''application/json''),
               headers = [(''x-a'', Some ''1'')], body = ''id=7;'', background = None,
               set_cookie_calls = [], cookies = [] \<rparr>"
proof -
  have built: "fst (get_response_handler is_listed dict_handler_example)
     = Handler None [Cookie ''a'' ''1''] [(''x-a'', \<lparr>header_value = Some ''1''\<rparr>)]
         ''application/json'' (response_class_of render_items) 201"
    by (simp add: get_response_handler_def dict_handler_example_def is_listed_def Let_def)
  have raised: "create_handler None [Cookie ''a'' ''1''] [(''x-a'', \<lparr>header_value = Some ''1''\<rparr>)]
         ''application/json'' (response_class_of render_items) 201
         (Now (Plain [(''id'', ''7'')]))
       = Inl AttributeError"
    by (simp add: create_handler_Plain declared_headers_def response_class_of_def)
  have decl: "declared_headers [(''x-a'', \<lparr>header_value = Some ''1''\<rparr>)]
       = [(''x-a'', Header_declaration \<lparr>header_value = Some ''1''\<rparr>)]"
    by (simp add: declared_headers_def)
  have plain: "create_handler None [Cookie ''a'' ''1''] [] ''application/json''
         (response_class_of render_items) 201 (Now (Plain [(''id'', ''7'')]))
       = Inr \<lparr> status_code = 201, media_type = Some (MediaTypeStr ''application/json''),
               headers = [], body = ''id=7;'', background = None,
               set_cookie_calls = [cookie_dict (Cookie ''a'' ''1'')], cookies = [] \<rparr>"
    by (simp add: create_handler_Plain declared_headers_def response_class_of_def render_items_def
        get_cookies_def set_cookie_def)
  have projected: "response_class_of render_items None [(''id'', ''7'')]
         (map (\<lambda>(k, v). (k, Header_value v))
            (get_headers [(''x-a'', \<lparr>header_value = Some ''1''\<rparr>)]))
         ''application/json'' 201
       = Inr \<lparr> status_code = 201, media_type = Some (MediaTypeStr ''application/json''),
               headers = [(''x-a'', Some ''1'')], body = ''id=7;'', background = None,
               set_cookie_calls = [], cookies = [] \<rparr>"
    by (simp add: response_class_of_def render_items_def get_headers_def dict_update_def)
  from built raised
    create_handler_Plain [of background' cookies' headers' media_type' response_class'
      status_code' content]
    decl plain projected
  show ?thesis by (intro conjI)
qed

subsection \<open>Ownership layers\<close>

lemma layers_upwards_hd: "layers_upwards l \<noteq> [] \<and> hd (layers_upwards l) = l"
  by (induction l rule: layers_upwards.induct) simp_all

lemma layers_upwards_last: "owner (last (layers_upwards l)) = None"
  by (induction l rule: layers_upwards.induct) (simp_all add: layers_upwards_hd)

lemma layers_upwards_owner:
  "Suc i < length (layers_upwards l) \<Longrightarrow>
   owner (layers_upwards l ! i) = Some (layers_upwards l ! Suc i)"
proof (induction l arbitrary: i rule: layers_upwards.induct)
  case (1 d p e)
  then show ?case by simp
next
  case (2 d p e current)
  show ?case
  proof (cases i)
    case 0
    have "layers_upwards current ! 0 = current"
      using layers_upwards_hd [of current] by (metis hd_conv_nth)
    with 0 show ?thesis by simp
  next
    case (Suc j)
    with 2 show ?thesis by simp
  qed
qed

lemma ownership_layers_order:
  "ownership_layers self \<noteq> []"
  "last (ownership_layers self) = this self"
  "owner (hd (ownership_layers self)) = None"
  "Suc i < length (ownership_layers self) \<Longrightarrow>
     owner (ownership_layers self ! Suc i) = Some (ownership_layers self ! i)"
proof -
  let ?up = "layers_upwards (this self)"
  have ne: "?up \<noteq> []" and h: "hd ?up = this self"
    using layers_upwards_hd [of "this self"] by simp_all
  show "ownership_layers self \<noteq> []"
    by (simp add: ownership_layers_def ne)
  show "last (ownership_layers self) = this self"
    by (simp add: ownership_layers_def last_rev h)
  show "owner (hd (ownership_layers self)) = None"
    by (simp add: ownership_layers_def hd_rev layers_upwards_last)
  show "owner (ownership_layers self ! Suc i) = Some (ownership_layers self ! i)"
    if "Suc i < length (ownership_layers self)"
  proof -
    let ?n = "length ?up"
    from that have i: "Suc i < ?n" by (simp add: ownership_layers_def)
    then have a: "rev ?up ! Suc i = ?up ! (?n - Suc (Suc i))"
      and b: "rev ?up ! i = ?up ! (?n - Suc i)"
      by (simp_all add: rev_nth)
    from i have "Suc (?n - Suc (Suc i)) = ?n - Suc i" by arith
    moreover from i have "Suc (?n - Suc (Suc i)) < ?n" by arith
    ultimately have "owner (?up ! (?n - Suc (Suc i))) = Some (?up ! (?n - Suc i))"
      using layers_upwards_owner [of "?n - Suc (Suc i)" "this self"] by simp
    with a b show ?thesis by (simp add: ownership_layers_def)
  qed
qed

subsection \<open>Exception handlers\<close>

lemma map_of_fold_dict_update:
  "map_of (fold (\<lambda>layer acc. dict_update acc (f layer)) ls d)
     = map_of d ++ map_of (rev (concat (map f ls)))"
proof (induction ls arbitrary: d)
  case Nil
  show ?case by simp
next
  case (Cons l ls)
  show ?case
    by (simp add: Cons.IH map_of_dict_update)
qed

lemma map_of_get_exception_handlers:
  "map_of (get_exception_handlers self)
     = map_of (rev (concat (map exception_handlers_or_empty (ownership_layers self))))"
  by (simp add: get_exception_handlers_def map_of_fold_dict_update)

lemma map_of_rev_concat_inner:
  assumes "\<forall>l \<in> set inner. k \<notin> fst ` set (f l)"
  shows "map_of (rev (concat (map f (outer @ layer # inner)))) k
           = (case map_of (rev (f layer)) k of
                Some v \<Rightarrow> Some v
              | None \<Rightarrow> map_of (rev (concat (map f outer))) k)"
proof -
  have "map_of (rev (concat (map f inner))) k = None"
    using assms by (auto simp: map_of_eq_None_iff)
  then show ?thesis
    by (simp add: map_add_def)
qed

lemma keys_fold_dict_update:
  "fst ` set (fold (\<lambda>layer acc. dict_update acc (f layer)) ls d)
     = fst ` set d \<union> (\<Union>l \<in> set ls. fst ` set (f l))"
proof -
  have "dom (map_of (fold (\<lambda>layer acc. dict_update acc (f layer)) ls d))
          = dom (map_of d) \<union> dom (map_of (rev (concat (map f ls))))"
    by (simp add: map_of_fold_dict_update Un_commute)
  then show ?thesis
    by (simp add: dom_map_of_conv_image_fst image_UN)
qed

text \<open>
  C10. \<open>get_exception_handlers\<close> merges the exception-handler mappings of the layers from
  the root (the layer without owner, first in \<open>ownership_layers\<close>) to the handler (last):
  its keys are the union of the layers' keys, and a key maps to the handler registered by
  the layer closest to the handler among those that register it. The method reads the
  layers only and assigns nothing, so the slots of the handler do not matter to it and
  each call computes the mapping again.
\<close>

theorem get_exception_handlers_innermost_wins:
  "fst ` set (get_exception_handlers self)
     = (\<Union>l \<in> set (ownership_layers self). fst ` set (exception_handlers_or_empty l))
   \<and> (ownership_layers self = outer @ layer # inner
        \<and> (\<forall>l \<in> set inner. k \<notin> fst ` set (exception_handlers_or_empty l))
        \<and> distinct (map fst (exception_handlers_or_empty layer))
        \<and> map_of (exception_handlers_or_empty layer) k = Some h
      \<longrightarrow> map_of (get_exception_handlers self) k = Some h)
   \<and> last (ownership_layers self) = this self
   \<and> owner (hd (ownership_layers self)) = None
   \<and> (\<forall>i. Suc i < length (ownership_layers self) \<longrightarrow>
          owner (ownership_layers self ! Suc i) = Some (ownership_layers self ! i))
   \<and> get_exception_handlers
        (self\<lparr>signature_model := s, priv_permissions := ps, priv_dependencies := ds,
              objects := os\<rparr>)
       = get_exception_handlers self"
proof -
  have keys: "fst ` set (get_exception_handlers self)
     = (\<Union>l \<in> set (ownership_layers self). fst ` set (exception_handlers_or_empty l))"
    by (simp add: get_exception_handlers_def keys_fold_dict_update)
  have inner: "map_of (get_exception_handlers self) k = Some h"
    if "ownership_layers self = outer @ layer # inner"
      and "\<forall>l \<in> set inner. k \<notin> fst ` set (exception_handlers_or_empty l)"
      and "distinct (map fst (exception_handlers_or_empty layer))"
      and "map_of (exception_handlers_or_empty layer) k = Some h"
  proof -
    from that(3,4) have "map_of (rev (exception_handlers_or_empty layer)) k = Some h"
      by (simp add: map_of_rev_distinct)
    with that(1,2) show ?thesis
      by (simp only: map_of_get_exception_handlers map_of_rev_concat_inner option.case)
  qed
  have slots: "get_exception_handlers
        (self\<lparr>signature_model := s, priv_permissions := ps, priv_dependencies := ds,
              objects := os\<rparr>)
       = get_exception_handlers self"
    by (simp add: get_exception_handlers_def ownership_layers_def)
  from keys inner slots ownership_layers_order [where self = self] show ?thesis
    by blast
qed

theorem get_exception_handlers_innermost_wins_witness:
  "ownership_layers handler_example = [] @ app_layer # [this handler_example]
   \<and> ownership_layers handler_example = [app_layer] @ this handler_example # []
   \<and> get_exception_handlers handler_example = [(StatusCode 404, 2), (StatusCode 500, 3)]
   \<and> map_of (get_exception_handlers handler_example) (StatusCode 404) = Some 2
   \<and> map_of (get_exception_handlers handler_example) (StatusCode 500) = Some 3
   \<and> get_exception_handlers (handler_example\<lparr>this := app_layer\<rparr>) = [(StatusCode 404, 1)]"
  using get_exception_handlers_innermost_wins
    [where self = handler_example and outer = "[app_layer]"
       and layer = "this handler_example" and inner = "[]" and k = "StatusCode 404"
       and h = 2]
  by (simp add: handler_example_def app_layer_def ownership_layers_def
      get_exception_handlers_def exception_handlers_or_empty_def dict_update_def)

subsection \<open>Permissions\<close>

lemma fold_append_concat:
  "fold (\<lambda>layer acc. acc @ f layer) ls acc0 = acc0 @ concat (map f ls)"
  by (induction ls arbitrary: acc0) simp_all

lemma resolve_permissions_fresh:
  "priv_permissions self = None \<Longrightarrow>
   resolve_permissions self
     = (map AsyncCallable (concat (map permissions_or_empty (ownership_layers self))),
        self\<lparr>priv_permissions :=
          Some (map AsyncCallable (concat (map permissions_or_empty (ownership_layers self))))\<rparr>)"
  by (simp add: resolve_permissions_def Let_def fold_append_concat)

lemma check_permissions_all_pass:
  "\<forall>p \<in> set ps. has_permission p connection \<Longrightarrow>
   check_permissions connection (map AsyncCallable ps) evaluated = (Inr (), evaluated @ ps)"
  by (induction ps arbitrary: evaluated)
    (simp_all add: Let_def continue_or_raise_permission_exception_def)

lemma check_permissions_first_denial:
  "\<forall>q \<in> set before. has_permission q connection \<Longrightarrow> \<not> has_permission p connection \<Longrightarrow>
   check_permissions connection (map AsyncCallable (before @ p # after)) evaluated
     = (Inl PermissionDenied, evaluated @ before @ [p])"
  by (induction before arbitrary: evaluated)
    (simp_all add: Let_def continue_or_raise_permission_exception_def)

lemma resolve_permissions_cached:
  "priv_permissions self = Some cached \<Longrightarrow> resolve_permissions self = (cached, self)"
  by (simp add: resolve_permissions_def)

lemma resolve_permissions_slot:
  "priv_permissions (snd (resolve_permissions self)) = Some (fst (resolve_permissions self))"
  by (cases "priv_permissions self") (simp_all add: resolve_permissions_def Let_def)

lemma map_AsyncCallable_wrapped: "map AsyncCallable (map wrapped rs) = rs"
  by (induction rs) simp_all

lemma allow_connection_unfold:
  "allow_connection connection self
     = (fst (check_permissions connection (fst (resolve_permissions self)) []),
        snd (check_permissions connection (fst (resolve_permissions self)) []),
        snd (resolve_permissions self))"
  by (simp add: allow_connection_def split_beta)

lemma allow_connection_all_pass:
  assumes "\<forall>p \<in> set (map wrapped (fst (resolve_permissions self))). has_permission p connection"
  shows "fst (allow_connection connection self) = Inr ()
     \<and> fst (snd (allow_connection connection self)) = map wrapped (fst (resolve_permissions self))"
proof -
  have "check_permissions connection
          (map AsyncCallable (map wrapped (fst (resolve_permissions self)))) []
        = (Inr (), [] @ map wrapped (fst (resolve_permissions self)))"
    by (rule check_permissions_all_pass [OF assms])
  then have "check_permissions connection (fst (resolve_permissions self)) []
        = (Inr (), map wrapped (fst (resolve_permissions self)))"
    by (simp only: map_AsyncCallable_wrapped append_Nil)
  then show ?thesis
    by (simp add: allow_connection_unfold)
qed

lemma allow_connection_denial:
  assumes "map wrapped (fst (resolve_permissions self)) = before @ p # after"
    and "\<forall>q \<in> set before. has_permission q connection"
    and "\<not> has_permission p connection"
  shows "fst (allow_connection connection self) = Inl PermissionDenied
     \<and> fst (snd (allow_connection connection self)) = before @ [p]"
proof -
  have "fst (resolve_permissions self) = map AsyncCallable (before @ p # after)"
    using assms(1) map_AsyncCallable_wrapped [of "fst (resolve_permissions self)"] by simp
  with check_permissions_first_denial [OF assms(2,3), of after "[]"] show ?thesis
    by (simp add: allow_connection_unfold)
qed

text \<open>
  C3. On the call that finds the permission list unresolved, \<open>resolve_permissions\<close>
  returns the permissions of the layers, each wrapped for the asynchronous call,
  concatenated from the root (first in \<open>ownership_layers\<close>, without owner) to the handler
  (last), in the order each layer declares them, and stores the list; every later call
  returns the stored list. On every call, the first or a later one, \<open>allow_connection\<close>
  evaluates the permissions of the resolved list in the order of the list: when all grant
  the connection, all are evaluated and nothing is raised; when \<open>p\<close> is the first to deny
  it, a Permission-Denied error is raised and exactly the permissions up to \<open>p\<close> have
  been evaluated, none after it. The same holds for the next connection, on the handler
  as the call has left it.
\<close>

theorem allow_connection_first_denial:
  "(priv_permissions self = None \<longrightarrow>
      fst (resolve_permissions self)
        = map AsyncCallable (concat (map permissions_or_empty (ownership_layers self)))
      \<and> map wrapped (fst (resolve_permissions self))
          = concat (map permissions_or_empty (ownership_layers self))
      \<and> snd (resolve_permissions self)
          = self\<lparr>priv_permissions := Some (fst (resolve_permissions self))\<rparr>)
   \<and> (priv_permissions self = Some cached \<longrightarrow> resolve_permissions self = (cached, self))
   \<and> resolve_permissions (snd (resolve_permissions self))
       = (fst (resolve_permissions self), snd (resolve_permissions self))
   \<and> last (ownership_layers self) = this self
   \<and> owner (hd (ownership_layers self)) = None
   \<and> (\<forall>i. Suc i < length (ownership_layers self) \<longrightarrow>
          owner (ownership_layers self ! Suc i) = Some (ownership_layers self ! i))
   \<and> snd (snd (allow_connection connection self)) = snd (resolve_permissions self)
   \<and> ((\<forall>p \<in> set (map wrapped (fst (resolve_permissions self))).
           has_permission p connection) \<longrightarrow>
        fst (allow_connection connection self) = Inr ()
        \<and> fst (snd (allow_connection connection self))
            = map wrapped (fst (resolve_permissions self)))
   \<and> (map wrapped (fst (resolve_permissions self)) = before @ p # after
        \<and> (\<forall>q \<in> set before. has_permission q connection)
        \<and> \<not> has_permission p connection \<longrightarrow>
        fst (allow_connection connection self) = Inl PermissionDenied
        \<and> fst (snd (allow_connection connection self)) = before @ [p])
   \<and> (map wrapped (fst (resolve_permissions self)) = before' @ p' # after'
        \<and> (\<forall>q \<in> set before'. has_permission q next_connection)
        \<and> \<not> has_permission p' next_connection \<longrightarrow>
        fst (allow_connection next_connection (snd (snd (allow_connection connection self))))
          = Inl PermissionDenied
        \<and> fst (snd (allow_connection next_connection
                      (snd (snd (allow_connection connection self)))))
            = before' @ [p'])"
proof -
  let ?ps = "concat (map permissions_or_empty (ownership_layers self))"
  have fresh: "priv_permissions self = None \<longrightarrow>
      fst (resolve_permissions self) = map AsyncCallable ?ps
      \<and> map wrapped (fst (resolve_permissions self)) = ?ps
      \<and> snd (resolve_permissions self)
          = self\<lparr>priv_permissions := Some (fst (resolve_permissions self))\<rparr>"
    by (simp add: resolve_permissions_fresh comp_def)
  have cached: "priv_permissions self = Some cached \<longrightarrow> resolve_permissions self = (cached, self)"
    by (simp add: resolve_permissions_cached)
  have again: "resolve_permissions (snd (resolve_permissions self))
       = (fst (resolve_permissions self), snd (resolve_permissions self))"
    by (rule resolve_permissions_cached) (rule resolve_permissions_slot)
  have state: "snd (snd (allow_connection connection self)) = snd (resolve_permissions self)"
    by (simp add: allow_connection_unfold)
  have pass: "(\<forall>p \<in> set (map wrapped (fst (resolve_permissions self))).
           has_permission p connection) \<longrightarrow>
        fst (allow_connection connection self) = Inr ()
        \<and> fst (snd (allow_connection connection self))
            = map wrapped (fst (resolve_permissions self))"
    using allow_connection_all_pass [of self connection] by blast
  have deny: "map wrapped (fst (resolve_permissions self)) = before @ p # after
        \<and> (\<forall>q \<in> set before. has_permission q connection)
        \<and> \<not> has_permission p connection \<longrightarrow>
        fst (allow_connection connection self) = Inl PermissionDenied
        \<and> fst (snd (allow_connection connection self)) = before @ [p]"
    using allow_connection_denial [of self before p after connection] by blast
  have next_list: "fst (resolve_permissions (snd (snd (allow_connection connection self))))
      = fst (resolve_permissions self)"
    by (simp add: state again)
  have later: "map wrapped (fst (resolve_permissions self)) = before' @ p' # after'
        \<and> (\<forall>q \<in> set before'. has_permission q next_connection)
        \<and> \<not> has_permission p' next_connection \<longrightarrow>
        fst (allow_connection next_connection (snd (snd (allow_connection connection self))))
          = Inl PermissionDenied
        \<and> fst (snd (allow_connection next_connection
                      (snd (snd (allow_connection connection self)))))
            = before' @ [p']"
    using allow_connection_denial
      [of "snd (snd (allow_connection connection self))" before' p' after' next_connection]
    by (simp only: next_list) blast
  from fresh cached again state pass deny later ownership_layers_order [where self = self]
  show ?thesis
    by (intro conjI) blast+
qed

theorem allow_connection_first_denial_witness:
  "priv_permissions handler_example = None
   \<and> map permission_name (map wrapped (fst (resolve_permissions handler_example)))
       = [''IsAuthenticated'', ''IsAdmin'', ''IsStaff'']
   \<and> fst (allow_connection ''guest'' handler_example) = Inl PermissionDenied
   \<and> map permission_name (fst (snd (allow_connection ''guest'' handler_example)))
       = [''IsAuthenticated'', ''IsAdmin'']
   \<and> priv_permissions (snd (snd (allow_connection ''guest'' handler_example))) \<noteq> None
   \<and> fst (allow_connection ''staff'' (snd (snd (allow_connection ''guest'' handler_example))))
       = Inl PermissionDenied
   \<and> map permission_name
         (fst (snd (allow_connection ''staff''
                      (snd (snd (allow_connection ''guest'' handler_example))))))
       = [''IsAuthenticated'', ''IsAdmin'']
   \<and> fst (allow_connection [] (snd (snd (allow_connection ''guest'' handler_example))))
       = Inl PermissionDenied
   \<and> map permission_name
         (fst (snd (allow_connection [] (snd (snd (allow_connection ''guest'' handler_example))))))
       = [''IsAuthenticated'']"
  using allow_connection_first_denial
    [where self = handler_example and connection = "''guest''"
       and before = "[Permission ''IsAuthenticated'' (\<lambda>user. user \<noteq> [])]"
       and p = "Permission ''IsAdmin'' (\<lambda>user. user = ''admin'')"
       and after = "[Permission ''IsStaff'' (\<lambda>user. user = ''staff'')]"
       and before' = "[Permission ''IsAuthenticated'' (\<lambda>user. user \<noteq> [])]"
       and p' = "Permission ''IsAdmin'' (\<lambda>user. user = ''admin'')"
       and after' = "[Permission ''IsStaff'' (\<lambda>user. user = ''staff'')]"
       and next_connection = "''staff''"]
  by (simp add: handler_example_def app_layer_def ownership_layers_def
      resolve_permissions_def allow_connection_def permissions_or_empty_def Let_def
      continue_or_raise_permission_exception_def)

subsection \<open>Dependencies\<close>

lemma has_dependency_unique_absent:
  "v \<notin> snd ` set d \<Longrightarrow> has_dependency_unique d k v = Inr ()"
  by (induction d k v rule: has_dependency_unique.induct) auto

lemma has_dependency_unique_present:
  "v \<in> snd ` set d \<Longrightarrow>
   \<exists>k'. has_dependency_unique d k v = Inl (ImproperlyConfigured k k') \<and> (k', v) \<in> set d"
  by (induction d k v rule: has_dependency_unique.induct) auto

lemma set_update_subset: "set (AList.update k v d) \<subseteq> insert (k, v) (set d)"
  by (induction d) auto

lemma distinct_values_update:
  "distinct (map snd d) \<Longrightarrow> v \<notin> snd ` set d \<Longrightarrow> distinct (map snd (AList.update k v d))"
proof (induction d)
  case Nil
  show ?case by simp
next
  case (Cons a d)
  show ?case
  proof (cases "fst a = k")
    case True
    with Cons.prems show ?thesis by auto
  next
    case False
    from Cons.prems have "snd a \<noteq> v" "snd a \<notin> snd ` set d" by auto
    with set_update_subset [of k v d] have "snd a \<notin> snd ` set (AList.update k v d)"
      by (auto simp: image_iff)
    with False Cons show ?thesis by auto
  qed
qed

lemma map_add_snoc:
  "m ++ map_of (xs @ [(k, v)]) = m(k \<mapsto> v) ++ map_of xs"
  by (rule ext) (simp add: map_add_def split: option.split)

lemma store_items_clean:
  assumes "distinct (map fst d)" and "distinct (map snd d)"
    and "\<forall>i < length items. snd (items ! i) \<notin> ran (map_of d ++ map_of (rev (take i items)))"
  shows "\<exists>d'. store_items d items = (Inr (), d') \<and> distinct (map fst d')
            \<and> distinct (map snd d') \<and> map_of d' = map_of d ++ map_of (rev items)"
  using assms
proof (induction items arbitrary: d)
  case Nil
  then show ?case by simp
next
  case (Cons a items)
  obtain k v where a: "a = (k, v)" by (cases a)
  let ?d1 = "AList.update k v d"
  from Cons.prems(3) have "snd ((a # items) ! 0) \<notin> ran (map_of d ++ map_of (rev (take 0 (a # items))))"
    by blast
  then have "v \<notin> ran (map_of d)" by (simp add: a)
  with Cons.prems(1) have v: "v \<notin> snd ` set d" by (simp add: ran_distinct)
  have k1: "distinct (map fst ?d1)" using Cons.prems(1) by (simp add: distinct_update)
  have v1: "distinct (map snd ?d1)" using Cons.prems(2) v by (rule distinct_values_update)
  have m1: "map_of ?d1 = (map_of d)(k \<mapsto> v)" by (rule update_conv')
  have step: "\<forall>i < length items.
      snd (items ! i) \<notin> ran (map_of ?d1 ++ map_of (rev (take i items)))"
  proof (intro allI impI)
    fix i assume "i < length items"
    then have "Suc i < length (a # items)" by simp
    with Cons.prems(3) have "snd ((a # items) ! Suc i)
        \<notin> ran (map_of d ++ map_of (rev (take (Suc i) (a # items))))"
      by blast
    then show "snd (items ! i) \<notin> ran (map_of ?d1 ++ map_of (rev (take i items)))"
      by (simp add: a m1 map_add_snoc)
  qed
  from Cons.IH [OF k1 v1 step] obtain d' where d':
    "store_items ?d1 items = (Inr (), d')" "distinct (map fst d')" "distinct (map snd d')"
    "map_of d' = map_of ?d1 ++ map_of (rev items)"
    by blast
  have "store_items d (a # items) = (Inr (), d')"
    by (simp add: a has_dependency_unique_absent [OF v] d'(1))
  moreover have "map_of d' = map_of d ++ map_of (rev (a # items))"
    by (simp add: d'(4) a m1 map_add_snoc)
  ultimately show ?case using d'(2,3) by blast
qed

lemma store_items_append:
  "store_items d (xs @ ys)
     = (case store_items d xs of (Inl e, d') \<Rightarrow> (Inl e, d') | (Inr u, d') \<Rightarrow> store_items d' ys)"
proof (induction xs arbitrary: d)
  case Nil
  show ?case by simp
next
  case (Cons a xs)
  obtain k v where a: "a = (k, v)" by (cases a)
  show ?case
    by (cases "has_dependency_unique d k v") (simp_all add: a Cons.IH)
qed

lemma store_layers_items:
  "store_layers d ls = store_items d (concat (map dependencies_or_empty ls))"
proof (induction ls arbitrary: d)
  case Nil
  show ?case by simp
next
  case (Cons l ls)
  show ?case
    by (simp add: store_items_append Cons.IH split: prod.split sum.split)
qed

lemma store_items_conflict:
  assumes "distinct (map fst d)" and "distinct (map snd d)"
    and "\<forall>i < length before.
           snd (before ! i) \<notin> ran (map_of d ++ map_of (rev (take i before)))"
    and "(map_of d ++ map_of (rev before)) k' = Some v"
  shows "fst (store_items d (before @ (k, v) # after)) = Inl (ImproperlyConfigured k k')"
proof -
  from store_items_clean [OF assms(1-3)] obtain d' where d':
    "store_items d before = (Inr (), d')" "distinct (map fst d')" "distinct (map snd d')"
    "map_of d' = map_of d ++ map_of (rev before)"
    by blast
  from assms(4) d'(4) have "map_of d' k' = Some v" by simp
  then have mem: "(k', v) \<in> set d'" by (rule map_of_SomeD)
  then have "v \<in> snd ` set d'" by force
  from has_dependency_unique_present [OF this, of k] obtain k'' where k'':
    "has_dependency_unique d' k v = Inl (ImproperlyConfigured k k'')" "(k'', v) \<in> set d'"
    by blast
  from d'(3) have inj: "inj_on snd (set d')" by (simp add: distinct_map)
  from inj_onD [OF inj, of "(k'', v)" "(k', v)"] mem k''(2) have "k'' = k'" by simp
  with k''(1) have "has_dependency_unique d' k v = Inl (ImproperlyConfigured k k')" by simp
  then show ?thesis
    by (simp add: store_items_append d'(1))
qed

lemma get_dependencies_fresh:
  assumes "signature_model self" and "priv_dependencies self = None"
  shows "get_dependencies self
     = (case fst (store_items [] (layered_items self)) of
          Inl e \<Rightarrow> Inl e
        | Inr u \<Rightarrow> Inr (length (objects self)),
        self\<lparr>priv_dependencies := Some (length (objects self)),
             objects := objects self @ [snd (store_items [] (layered_items self))]\<rparr>)"
  using assms
  by (simp add: get_dependencies_def Let_def split_beta store_layers_items layered_items_def
      split: sum.split)

lemma get_dependencies_cached:
  "signature_model self \<Longrightarrow> priv_dependencies self = Some reference \<Longrightarrow>
   get_dependencies self = (Inr reference, self)"
  by (simp add: get_dependencies_def)

lemma no_provider_present_index:
  "no_provider_present items \<Longrightarrow>
   \<forall>i < length items. snd (items ! i) \<notin> ran (map_of [] ++ map_of (rev (take i items)))"
  by (simp add: no_provider_present_def accumulated_def)

text \<open>
  C1 (amended). Let the signature model be set and the dependencies not yet resolved.
  \<open>get_dependencies\<close> goes through the layers from the root to the handler and through
  the items of each layer in order, keeping the accumulated map, in which each key holds
  the provider stored last under it. At the first item whose provider is in the
  accumulated map, if the map holds that provider under a key other than the item's key,
  a Configuration error is raised that names the item's key and that key. When no item
  finds its provider in the accumulated map, no error is raised and the result maps each
  key to the provider stored last under it, which is the provider of the layer closest to
  the handler among those that bind the key: the same key bound to different providers in
  nested layers is an override. What happens when the first item that finds its provider
  in the accumulated map finds it under its own key is not part of this statement.
\<close>

theorem get_dependencies_cross_key:
  assumes "signature_model self" and "priv_dependencies self = None"
  shows "(layered_items self = before @ (k, injector) # after
            \<and> no_provider_present before
            \<and> accumulated before k' = Some injector \<and> k' \<noteq> k
          \<longrightarrow> fst (get_dependencies self) = Inl (ImproperlyConfigured k k'))
   \<and> (no_provider_present (layered_items self) \<longrightarrow>
        (\<exists>reference. fst (get_dependencies self) = Inr reference
            \<and> reference < length (objects (snd (get_dependencies self)))
            \<and> map_of (objects (snd (get_dependencies self)) ! reference)
                = accumulated (layered_items self)))
   \<and> (ownership_layers self = outer @ layer # inner
        \<and> (\<forall>l \<in> set inner. key' \<notin> fst ` set (dependencies_or_empty l))
        \<and> distinct (map fst (dependencies_or_empty layer))
        \<and> map_of (dependencies_or_empty layer) key' = Some provider
      \<longrightarrow> accumulated (layered_items self) key' = Some provider)
   \<and> last (ownership_layers self) = this self
   \<and> owner (hd (ownership_layers self)) = None
   \<and> (\<forall>i. Suc i < length (ownership_layers self) \<longrightarrow>
          owner (ownership_layers self ! Suc i) = Some (ownership_layers self ! i))"
proof -
  note fresh = get_dependencies_fresh [OF assms]
  have conflict: "fst (get_dependencies self) = Inl (ImproperlyConfigured k k')"
    if "layered_items self = before @ (k, injector) # after"
      and "no_provider_present before"
      and "accumulated before k' = Some injector"
  proof -
    from that(3) have "(map_of [] ++ map_of (rev before)) k' = Some injector"
      by (simp add: accumulated_def)
    from store_items_conflict [OF _ _ no_provider_present_index [OF that(2)] this, of k after]
    have "fst (store_items [] (before @ (k, injector) # after))
            = Inl (ImproperlyConfigured k k')"
      by simp
    then show ?thesis
      by (simp add: fresh that(1))
  qed
  have clean: "\<exists>reference. fst (get_dependencies self) = Inr reference
            \<and> reference < length (objects (snd (get_dependencies self)))
            \<and> map_of (objects (snd (get_dependencies self)) ! reference)
                = accumulated (layered_items self)"
    if "no_provider_present (layered_items self)"
  proof -
    from store_items_clean [OF _ _ no_provider_present_index [OF that]]
    obtain d' where d': "store_items [] (layered_items self) = (Inr (), d')"
      "map_of d' = map_of [] ++ map_of (rev (layered_items self))"
      by auto
    have "fst (get_dependencies self) = Inr (length (objects self))"
      and "objects (snd (get_dependencies self)) = objects self @ [d']"
      by (simp_all add: fresh d'(1))
    moreover have "map_of d' = accumulated (layered_items self)"
      by (simp add: d'(2) accumulated_def)
    ultimately show ?thesis by simp
  qed
  have inner: "accumulated (layered_items self) key' = Some provider"
    if "ownership_layers self = outer @ layer # inner"
      and "\<forall>l \<in> set inner. key' \<notin> fst ` set (dependencies_or_empty l)"
      and "distinct (map fst (dependencies_or_empty layer))"
      and "map_of (dependencies_or_empty layer) key' = Some provider"
  proof -
    from that(3,4) have "map_of (rev (dependencies_or_empty layer)) key' = Some provider"
      by (simp add: map_of_rev_distinct)
    with that(1,2) show ?thesis
      by (simp only: accumulated_def layered_items_def map_of_rev_concat_inner option.case)
  qed
  from conflict clean inner ownership_layers_order [where self = self] show ?thesis
    by blast
qed

theorem get_dependencies_cross_key_witness:
  "signature_model cross_key_example \<and> priv_dependencies cross_key_example = None
   \<and> layered_items cross_key_example = [(''db'', Inject 1)] @ (''cache'', Inject 1) # []
   \<and> no_provider_present [(''db'', Inject 1)]
   \<and> accumulated [(''db'', Inject 1)] ''db'' = Some (Inject 1)
   \<and> fst (get_dependencies cross_key_example) = Inl (ImproperlyConfigured ''cache'' ''db'')
   \<and> signature_model handler_example \<and> priv_dependencies handler_example = None
   \<and> layered_items handler_example = [(''db'', Inject 1), (''db'', Inject 2)]
   \<and> no_provider_present (layered_items handler_example)
   \<and> fst (get_dependencies handler_example) = Inr 0
   \<and> objects (snd (get_dependencies handler_example)) ! 0 = [(''db'', Inject 2)]"
proof -
  have c: "signature_model cross_key_example" "priv_dependencies cross_key_example = None"
    by (simp_all add: cross_key_example_def)
  have h: "signature_model handler_example" "priv_dependencies handler_example = None"
    by (simp_all add: handler_example_def)
  have ci: "layered_items cross_key_example = [(''db'', Inject 1)] @ (''cache'', Inject 1) # []"
    by (simp add: layered_items_def cross_key_example_def app_layer_def ownership_layers_def
        dependencies_or_empty_def)
  have hi: "layered_items handler_example = [(''db'', Inject 1), (''db'', Inject 2)]"
    by (simp add: layered_items_def handler_example_def app_layer_def ownership_layers_def
        dependencies_or_empty_def)
  have n1: "no_provider_present [(''db'', Inject 1)]"
    by (simp add: no_provider_present_def accumulated_def)
  have n2: "no_provider_present (layered_items handler_example)"
    by (simp add: hi no_provider_present_def accumulated_def less_Suc_eq ran_def)
  have a: "accumulated [(''db'', Inject 1)] ''db'' = Some (Inject 1)"
    by (simp add: accumulated_def)
  have run: "objects (snd (get_dependencies handler_example)) ! 0 = [(''db'', Inject 2)]"
    by (simp add: get_dependencies_def handler_example_def app_layer_def ownership_layers_def
        dependencies_or_empty_def Let_def)
  from get_dependencies_cross_key
    [OF c, where before = "[(''db'', Inject 1)]" and k = "''cache''"
       and injector = "Inject 1" and after = "[]" and k' = "''db''"]
    ci n1 a
  have e: "fst (get_dependencies cross_key_example) = Inl (ImproperlyConfigured ''cache'' ''db'')"
    by simp
  from get_dependencies_cross_key [OF h] n2
  obtain reference where r: "fst (get_dependencies handler_example) = Inr reference"
    by blast
  have "fst (get_dependencies handler_example) = Inr 0"
    by (simp add: get_dependencies_def handler_example_def app_layer_def ownership_layers_def
        dependencies_or_empty_def Let_def)
  with c h ci hi n1 n2 a e run r show ?thesis
    by simp
qed

text \<open>
  C1 as stated fails. In this chain the provider \<open>Inject 1\<close> is bound under \<open>a\<close> by the
  root and under \<open>b\<close> by the handler, two different keys in two layers, and no error is
  raised: the layer in between has overridden \<open>a\<close>, so the accumulated map no longer
  holds \<open>Inject 1\<close> when the handler's item is reached.
\<close>

theorem get_dependencies_cross_key_counterexample:
  "map dependencies_or_empty (ownership_layers overridden_example)
     = [[(''a'', Inject 1)], [(''a'', Inject 2)], [(''b'', Inject 1)]]
   \<and> signature_model overridden_example
   \<and> priv_dependencies overridden_example = None
   \<and> fst (get_dependencies overridden_example) = Inr 0
   \<and> objects (snd (get_dependencies overridden_example)) ! 0
       = [(''a'', Inject 2), (''b'', Inject 1)]"
  by (simp add: get_dependencies_def overridden_example_def
      ownership_layers_def dependencies_or_empty_def Let_def)

text \<open>When the accumulated map holds the provider under the item's own key,
  \<open>has_dependency_unique\<close> raises as well, and the error names that key twice.\<close>

lemma get_dependencies_same_key:
  "map dependencies_or_empty (ownership_layers same_key_example)
     = [[(''db'', Inject 1)], [(''db'', Inject 1)]]
   \<and> fst (get_dependencies same_key_example) = Inl (ImproperlyConfigured ''db'' ''db'')"
  by (simp add: get_dependencies_def same_key_example_def
      ownership_layers_def dependencies_or_empty_def Let_def)

text \<open>
  C6. When a call of \<open>get_dependencies\<close> returns a mapping, the slot
  \<^verbatim>\<open>_dependencies\<close> holds the reference to it, and a second call returns the same
  reference and changes nothing, also when the layers have changed in between: they are
  not walked again. The slot is tested against the unset marker, so this holds for an
  empty mapping as well. When the slot was unset before the first call, the mapping is an
  object created by that call.
\<close>

theorem get_dependencies_idempotent:
  assumes "fst (get_dependencies self) = Inr reference"
  shows "get_dependencies (snd (get_dependencies self))
           = (Inr reference, snd (get_dependencies self))
   \<and> priv_dependencies (snd (get_dependencies self)) = Some reference
   \<and> get_dependencies ((snd (get_dependencies self))\<lparr>this := other\<rparr>)
       = (Inr reference, (snd (get_dependencies self))\<lparr>this := other\<rparr>)
   \<and> (priv_dependencies self = None \<longrightarrow>
        reference = length (objects self)
        \<and> length (objects (snd (get_dependencies self))) = Suc (length (objects self))
        \<and> take (length (objects self)) (objects (snd (get_dependencies self))) = objects self)
   \<and> (priv_dependencies self \<noteq> None \<longrightarrow> snd (get_dependencies self) = self)"
proof -
  have sm: "signature_model self"
  proof (rule ccontr)
    assume "\<not> signature_model self"
    then have "fst (get_dependencies self) = Inl RuntimeError"
      by (simp add: get_dependencies_def)
    with assms show False by simp
  qed
  show ?thesis
  proof (cases "priv_dependencies self")
    case (Some r)
    with sm assms have "reference = r" by (simp add: get_dependencies_cached)
    with sm Some show ?thesis by (simp add: get_dependencies_cached get_dependencies_def)
  next
    case None
    note fresh = get_dependencies_fresh [OF sm None]
    from assms have r: "reference = length (objects self)"
      by (simp add: fresh split: sum.splits)
    let ?s = "snd (get_dependencies self)"
    have s: "signature_model ?s" "priv_dependencies ?s = Some reference"
      "length (objects ?s) = Suc (length (objects self))"
      "take (length (objects self)) (objects ?s) = objects self"
      by (simp_all add: fresh sm r)
    have "get_dependencies ?s = (Inr reference, ?s)"
      by (rule get_dependencies_cached [OF s(1,2)])
    moreover have "get_dependencies (?s\<lparr>this := other\<rparr>) = (Inr reference, ?s\<lparr>this := other\<rparr>)"
      by (rule get_dependencies_cached) (simp_all add: s)
    ultimately show ?thesis using s r None by simp
  qed
qed

theorem get_dependencies_idempotent_witness:
  "fst (get_dependencies handler_example) = Inr 0
   \<and> objects (snd (get_dependencies handler_example)) = [[(''db'', Inject 2)]]
   \<and> get_dependencies (snd (get_dependencies handler_example))
       = (Inr 0, snd (get_dependencies handler_example))
   \<and> get_dependencies ((snd (get_dependencies handler_example))\<lparr>this := app_layer\<rparr>)
       = (Inr 0, (snd (get_dependencies handler_example))\<lparr>this := app_layer\<rparr>)"
proof -
  have first: "fst (get_dependencies handler_example) = Inr 0"
    by (simp add: get_dependencies_def handler_example_def app_layer_def ownership_layers_def
        dependencies_or_empty_def Let_def)
  have objs: "objects (snd (get_dependencies handler_example)) = [[(''db'', Inject 2)]]"
    by (simp add: get_dependencies_def handler_example_def app_layer_def ownership_layers_def
        dependencies_or_empty_def Let_def)
  from get_dependencies_idempotent [OF first, where other = app_layer] first objs
  show ?thesis by simp
qed

subsection \<open>Resolving the arguments of the handler function\<close>

text \<open>
  C9. When the parameter model of a handler declares no parameters (\<open>has_kwargs\<close> is
  false), the arguments resolved for the handler function are the empty mapping, whatever
  \<open>to_kwargs\<close>, the expected dependencies and the signature model would give, and the
  request is as before: its body has not been read. The handler function is called with
  no keyword argument, after the owner when the owner is an \<open>APIView\<close>.
\<close>

theorem no_kwargs_leaves_body_unread:
  assumes "\<not> has_kwargs parameter_model"
  shows "parsed_kwargs parameter_model parse_values req = (Inr [], req)
   \<and> snd (priv_get_response_data route parameter_model parse_values req) = req
   \<and> body_reads (snd (priv_get_response_data route parameter_model parse_values req))
       = body_reads req
   \<and> fst (priv_get_response_data route parameter_model parse_values req)
       = Inr (fn route (if owner_is_APIView route then route_owner route else None) [])"
  using assms by (simp add: parsed_kwargs_def priv_get_response_data_def)

theorem no_kwargs_leaves_body_unread_witness:
  "\<not> has_kwargs (data_model False)
   \<and> priv_get_response_data echo_route (data_model False) parse_ready
       \<lparr>request_body = ''{}'', body_reads = 0\<rparr>
       = (Inr (None, []), \<lparr>request_body = ''{}'', body_reads = 0\<rparr>)
   \<and> priv_get_response_data echo_route (data_model True) parse_ready
       \<lparr>request_body = ''{}'', body_reads = 0\<rparr>
       = (Inr (None, [(''data'', ''{}'')]), \<lparr>request_body = ''{}'', body_reads = 1\<rparr>)"
  using no_kwargs_leaves_body_unread
    [where parameter_model = "data_model False" and parse_values = parse_ready
       and req = "\<lparr>request_body = ''{}'', body_reads = 0\<rparr>" and route = echo_route]
  by (simp add: data_model_def echo_route_def parse_ready_def parsed_kwargs_def
      priv_get_response_data_def await_request_data_def resolve_dependencies_def)

end
